theory Spec2Isabelle
  imports Main "HOL-Library.Word" "HOL-Library.List_Lexorder"
begin

section \<open>Cerebrum tool manager: \<^verbatim>\<open>cerebrum/manager/tool.py\<close>\<close>

text \<open>
  A shallow embedding of the class \<^verbatim>\<open>ToolManager\<close>. Python text is modelled as
  \<^typ>\<open>string\<close> restricted to ASCII, bytes as \<^typ>\<open>8 word list\<close>, Python's unbounded
  integers as \<^typ>\<open>int\<close>. Every exception a modelled function can raise is a value of
  \<open>py_error\<close>, returned as \<open>Inl\<close>.
\<close>

subsection \<open>Exceptions\<close>

datatype py_error =
    FileNotFoundError
  | KeyError
  | TypeError
  | AttributeError
  | ValueError
  | BinasciiError
  | JSONDecodeError
  | NotFoundError
  | CorruptPackageError
  | OSError
  | IndexError
  | CalledProcessError

subsection \<open>Text primitives of the Python library\<close>

text \<open>\<^verbatim>\<open>s.replace(a, b)\<close> for one-character \<open>a\<close> and \<open>b\<close>.\<close>

definition replace_char :: "char \<Rightarrow> char \<Rightarrow> string \<Rightarrow> string" where
  "replace_char a b s = map (\<lambda>c. if c = a then b else c) s"

text \<open>
  \<^verbatim>\<open>s.split(sep)\<close> for a one-character separator: every occurrence splits, so empty
  pieces are kept and the empty text gives one empty piece.
\<close>

fun split_on :: "char \<Rightarrow> string \<Rightarrow> string list" where
  "split_on sep [] = [[]]"
| "split_on sep (c # cs) =
     (if c = sep then [] # split_on sep cs
      else (case split_on sep cs of [] \<Rightarrow> [[c]] | p # ps \<Rightarrow> (c # p) # ps))"

definition is_digit :: "char \<Rightarrow> bool" where
  "is_digit c = (c \<in> set ''0123456789'')"

subsection \<open>VersionCodec: \<^verbatim>\<open>_version_to_path\<close>, \<^verbatim>\<open>_path_to_version\<close>\<close>

text \<open>
  \<^verbatim>\<open>
  def _version_to_path(self, version):
      if version is None:
          return "latest"
      return str(version).replace(".", "-")

  def _path_to_version(self, path_version):
      return path_version.replace("-", ".")
  \<close>
  The argument is a text or \<^verbatim>\<open>None\<close>; \<^verbatim>\<open>str\<close> of a text is the text.
\<close>

definition version_to_path :: "string option \<Rightarrow> string" where
  "version_to_path version =
     (case version of None \<Rightarrow> ''latest'' | Some v \<Rightarrow> replace_char CHR ''.'' CHR ''-'' v)"

definition path_to_version :: "string \<Rightarrow> string" where
  "path_to_version path_version = replace_char CHR ''-'' CHR ''.'' path_version"

text \<open>
  A version of dot-separated non-negative integer components: every piece between dots
  is a non-empty run of decimal digits.
\<close>

definition dotted_version :: "string \<Rightarrow> bool" where
  "dotted_version v = list_all (\<lambda>p. p \<noteq> [] \<and> list_all is_digit p) (split_on CHR ''.'' v)"

subsection \<open>\<^verbatim>\<open>int(text)\<close>\<close>

text \<open>
  Python's \<^verbatim>\<open>int\<close> on a text, base 10: white space is stripped at both ends, one
  sign may follow, then decimal digits where single underscores may stand between two
  digits. Anything else raises \<^verbatim>\<open>ValueError\<close> (here \<open>None\<close>), and so does a
  numeral of more digits than the interpreter's limit for text conversion, 4300 by
  default. Among the characters below U+0100 the white space of \<^verbatim>\<open>int\<close> is tab,
  line feed, vertical tab, form feed, carriage return, space, U+0085 and U+00A0, and
  the decimal digits are \<^verbatim>\<open>0\<close> to \<^verbatim>\<open>9\<close>.
\<close>

definition is_c_space :: "char \<Rightarrow> bool" where
  "is_c_space c =
     (c \<in> set [CHR 0x09, CHR 0x0A, CHR 0x0B, CHR 0x0C, CHR 0x0D, CHR 0x20, CHR 0x85, CHR 0xA0])"

definition strip_with :: "('a \<Rightarrow> bool) \<Rightarrow> 'a list \<Rightarrow> 'a list" where
  "strip_with sp s = rev (dropWhile sp (rev (dropWhile sp s)))"

fun int_digits :: "string \<Rightarrow> string option" where
  "int_digits [] = None"
| "int_digits [c] = (if is_digit c then Some [c] else None)"
| "int_digits (c # d # cs) =
     (if \<not> is_digit c then None
      else if d = CHR ''_'' then map_option ((#) c) (int_digits cs)
      else map_option ((#) c) (int_digits (d # cs)))"

definition digit_val :: "char \<Rightarrow> int" where
  "digit_val c = int (of_char c) - 48"

definition decimal_val :: "string \<Rightarrow> int" where
  "decimal_val ds = foldl (\<lambda>n c. 10 * n + digit_val c) 0 ds"

definition int_max_str_digits :: nat where
  "int_max_str_digits = 4300"

definition py_int :: "string \<Rightarrow> int option" where
  "py_int s =
     (let t = strip_with is_c_space s;
          (neg, u) = (case t of
                        c # r \<Rightarrow> if c = CHR ''-'' then (True, r)
                                 else if c = CHR ''+'' then (False, r) else (False, t)
                      | [] \<Rightarrow> (False, t))
      in case int_digits u of
           None \<Rightarrow> None
         | Some ds \<Rightarrow>
             if length ds > int_max_str_digits then None
             else Some (if neg then - decimal_val ds else decimal_val ds))"

subsection \<open>CacheStore: \<^verbatim>\<open>_get_newest_version\<close>\<close>

text \<open>
  \<^verbatim>\<open>
  def _get_newest_version(self, versions):
      if not versions:
          return None
      return sorted(versions, key=lambda v: [int(x) for x in v.split(".")])[-1]
  \<close>
  \<^verbatim>\<open>sorted\<close> computes the key of every element first, so one component that
  \<^verbatim>\<open>int\<close> rejects raises \<^verbatim>\<open>ValueError\<close> whatever the other elements are. It
  is a stable sort on the keys, which Python compares as lists of integers: \<open>sort_key\<close>
  on the lexicographic order of \<^typ>\<open>int list\<close>, where a proper prefix is smaller.
\<close>

definition version_key :: "string \<Rightarrow> int list option" where
  "version_key v = those (map py_int (split_on CHR ''.'' v))"

definition get_newest_version :: "string list \<Rightarrow> py_error + string option" where
  "get_newest_version versions =
     (if versions = [] then Inr None
      else case those (map version_key versions) of
             None \<Rightarrow> Inl ValueError
           | Some ks \<Rightarrow> Inr (Some (snd (last (sort_key fst (zip ks versions))))))"


text \<open>
  The texts that \<^verbatim>\<open>int\<close> reads, described as texts. A digit run is a text of one
  or more decimal digits. Grouped digits are decimal digits with single underscores
  between them: the text is not empty, holds digits and underscores only, begins and
  ends with a digit and has no two underscores in a row. An integer literal is a text
  that, without the white space around it and without one leading sign, is grouped
  digits with no more digits than the limit of the interpreter. Its value is the
  decimal value of its digits, negated after a minus sign.
\<close>

definition digit_run :: "string \<Rightarrow> bool" where
  "digit_run p = (p \<noteq> [] \<and> list_all is_digit p)"

fun no_double_underscore :: "string \<Rightarrow> bool" where
  "no_double_underscore (c # d # cs) =
     (\<not> (c = CHR ''_'' \<and> d = CHR ''_'') \<and> no_double_underscore (d # cs))"
| "no_double_underscore cs = True"

definition grouped_digits :: "string \<Rightarrow> bool" where
  "grouped_digits b =
     (b \<noteq> [] \<and> list_all (\<lambda>c. is_digit c \<or> c = CHR ''_'') b
      \<and> is_digit (hd b) \<and> is_digit (last b) \<and> no_double_underscore b)"

definition unsigned_part :: "string \<Rightarrow> string" where
  "unsigned_part p =
     (case strip_with is_c_space p of
        [] \<Rightarrow> []
      | c # r \<Rightarrow> if c = CHR ''-'' \<or> c = CHR ''+'' then r else c # r)"

definition int_literal :: "string \<Rightarrow> bool" where
  "int_literal p =
     (grouped_digits (unsigned_part p)
      \<and> length (filter is_digit (unsigned_part p)) \<le> int_max_str_digits)"

definition literal_value :: "string \<Rightarrow> int" where
  "literal_value p =
     (case strip_with is_c_space p of
        [] \<Rightarrow> 0
      | c # r \<Rightarrow> if c = CHR ''-'' then - decimal_val (filter is_digit r)
                 else decimal_val (filter is_digit (c # r)))"

text \<open>
  A version all of whose dot-separated components are integer literals, and the list
  of their values.
\<close>

definition literal_version :: "string \<Rightarrow> bool" where
  "literal_version v = list_all int_literal (split_on CHR ''.'' v)"

definition component_values :: "string \<Rightarrow> int list" where
  "component_values v = map literal_value (split_on CHR ''.'' v)"

text \<open>Python's order on lists of integers, written out.\<close>

fun key_le :: "int list \<Rightarrow> int list \<Rightarrow> bool" where
  "key_le [] ys = True"
| "key_le (x # xs) [] = False"
| "key_le (x # xs) (y # ys) = (x < y \<or> (x = y \<and> key_le xs ys))"

subsection \<open>Base64 transport: \<^verbatim>\<open>base64.b64encode\<close>, \<^verbatim>\<open>base64.b64decode\<close>\<close>

type_synonym byte = "8 word"

definition b64_alphabet :: string where
  "b64_alphabet = ''ABCDEFGHIJKLMNOPQRSTUVWXYZabcdefghijklmnopqrstuvwxyz0123456789+/''"

definition b64_char :: "nat \<Rightarrow> char" where
  "b64_char n = b64_alphabet ! n"

definition b64_index :: "char \<Rightarrow> nat option" where
  "b64_index c = map_of (zip b64_alphabet [0 ..< 64]) c"

text \<open>
  The encoder takes three bytes to four characters of the alphabet, six bits each, and
  pads a last group of one or two bytes with \<^verbatim>\<open>=\<close>. The shifts and masks of the
  library are written as division and remainder on the byte values. In
  \<^verbatim>\<open>_get_tool_files\<close> the encoded bytes are decoded as UTF-8; they are ASCII, so the
  text is the same characters:
  \<^verbatim>\<open>content = base64.b64encode(f.read()).decode("utf-8")\<close>
\<close>

fun b64encode :: "byte list \<Rightarrow> string" where
  "b64encode [] = []"
| "b64encode [a] =
     [b64_char (unat a div 4), b64_char (unat a mod 4 * 16), CHR ''='', CHR ''='']"
| "b64encode [a, b] =
     [b64_char (unat a div 4), b64_char (unat a mod 4 * 16 + unat b div 16),
      b64_char (unat b mod 16 * 4), CHR ''='']"
| "b64encode (a # b # c # rest) =
     [b64_char (unat a div 4), b64_char (unat a mod 4 * 16 + unat b div 16),
      b64_char (unat b mod 16 * 4 + unat c div 64), b64_char (unat c mod 64)]
     @ b64encode rest"

text \<open>
  The decoder of \<^verbatim>\<open>binascii.a2b_base64\<close> as \<^verbatim>\<open>b64decode\<close> calls it (not strict):
  a loop over the characters with the position in the current group of four
  (\<open>quad_pos\<close>), the bits left over (\<open>leftchar\<close>), the padding characters seen since
  the last data character (\<open>pads\<close>) and the bytes written. A character outside the
  alphabet is skipped. A padding character ends the input once it completes a group
  that holds at least two data characters; elsewhere it is skipped. Input that ends
  inside a group raises \<^verbatim>\<open>binascii.Error\<close>.
\<close>

fun a2b_base64 :: "nat \<Rightarrow> nat \<Rightarrow> nat \<Rightarrow> byte list \<Rightarrow> string \<Rightarrow> py_error + byte list" where
  "a2b_base64 quad_pos leftchar pads bin_data [] =
     (if quad_pos \<noteq> 0 then Inl BinasciiError else Inr bin_data)"
| "a2b_base64 quad_pos leftchar pads bin_data (this_ch # rest) =
     (if this_ch = CHR ''='' then
        (if quad_pos \<ge> 2 \<and> quad_pos + (pads + 1) \<ge> 4 then Inr bin_data
         else a2b_base64 quad_pos leftchar (if quad_pos \<ge> 2 then pads + 1 else pads)
                bin_data rest)
      else
        (case b64_index this_ch of
           None \<Rightarrow> a2b_base64 quad_pos leftchar pads bin_data rest
         | Some v \<Rightarrow>
             if quad_pos = 0 then a2b_base64 1 v 0 bin_data rest
             else if quad_pos = 1 then
               a2b_base64 2 (v mod 16) 0 (bin_data @ [of_nat (leftchar * 4 + v div 16)]) rest
             else if quad_pos = 2 then
               a2b_base64 3 (v mod 4) 0 (bin_data @ [of_nat (leftchar * 16 + v div 4)]) rest
             else
               a2b_base64 0 0 0 (bin_data @ [of_nat (leftchar * 64 + v)]) rest))"

text \<open>
  \<^verbatim>\<open>base64.b64decode(s)\<close> on a text: a text with a character outside ASCII raises
  \<^verbatim>\<open>ValueError\<close>; otherwise its characters are decoded.
\<close>

definition is_ascii :: "char \<Rightarrow> bool" where
  "is_ascii c = (of_char c < (128 :: nat))"

definition b64decode :: "string \<Rightarrow> py_error + byte list" where
  "b64decode s =
     (if \<not> list_all is_ascii s then Inl ValueError else a2b_base64 0 0 0 [] s)"

subsection \<open>JSON values and dictionaries\<close>

text \<open>
  The values that \<^verbatim>\<open>json.load\<close> and \<^verbatim>\<open>response.json()\<close> return. An object is
  the list of its members in order, with distinct names. Numbers with a fraction are
  left out of the model.
\<close>

datatype json =
    JNull
  | JBool bool
  | JInt int
  | JStr string
  | JArr "json list"
  | JObj "(string \<times> json) list"

text \<open>Sequencing of steps that can raise: the first exception ends the computation.\<close>

definition and_then :: "'e + 'a \<Rightarrow> ('a \<Rightarrow> 'e + 'b) \<Rightarrow> 'e + 'b" where
  "and_then r f = (case r of Inl e \<Rightarrow> Inl e | Inr x \<Rightarrow> f x)"

text \<open>
  \<^verbatim>\<open>d.get(key, default)\<close>: only a dictionary has the method; on any other value the
  attribute lookup raises \<^verbatim>\<open>AttributeError\<close>.
\<close>

fun py_get :: "json \<Rightarrow> string \<Rightarrow> json \<Rightarrow> py_error + json" where
  "py_get (JObj kvs) key dflt = Inr (case map_of kvs key of None \<Rightarrow> dflt | Some v \<Rightarrow> v)"
| "py_get _ key dflt = Inl AttributeError"

text \<open>
  \<^verbatim>\<open>d[key]\<close> with a text key: \<^verbatim>\<open>KeyError\<close> on a dictionary without the key,
  \<^verbatim>\<open>TypeError\<close> on every other value.
\<close>

fun subscript :: "json \<Rightarrow> string \<Rightarrow> py_error + json" where
  "subscript (JObj kvs) key = (case map_of kvs key of None \<Rightarrow> Inl KeyError | Some v \<Rightarrow> Inr v)"
| "subscript _ key = Inl TypeError"

text \<open>
  \<^verbatim>\<open>for x in value\<close>: a list gives its elements, a text its characters, a
  dictionary its keys; the other values are not iterable.
\<close>

fun iterate :: "json \<Rightarrow> py_error + json list" where
  "iterate (JArr xs) = Inr xs"
| "iterate (JStr s) = Inr (map (\<lambda>c. JStr [c]) s)"
| "iterate (JObj kvs) = Inr (map (\<lambda>kv. JStr (fst kv)) kvs)"
| "iterate _ = Inl TypeError"

text \<open>
  A value used as a dictionary key: lists and dictionaries are not hashable, and
  \<^verbatim>\<open>True\<close> and \<^verbatim>\<open>False\<close> are the keys \<^verbatim>\<open>1\<close> and \<^verbatim>\<open>0\<close>.
\<close>

fun dict_key :: "json \<Rightarrow> py_error + json" where
  "dict_key (JArr xs) = Inl TypeError"
| "dict_key (JObj kvs) = Inl TypeError"
| "dict_key (JBool b) = Inr (JInt (if b then 1 else 0))"
| "dict_key k = Inr k"

subsection \<open>PackageBuilder: \<^verbatim>\<open>_get_tool_files\<close>, \<^verbatim>\<open>_get_tool_metadata\<close>, \<^verbatim>\<open>package_tool\<close>\<close>

text \<open>
  A source folder as the code reads it: the files that \<^verbatim>\<open>os.walk\<close> lists, each
  with its path relative to the folder and the outcome of opening and reading it (its
  bytes, or the exception, as for a link that points nowhere), and the outcome of
  \<^verbatim>\<open>json.load\<close> on \<^verbatim>\<open>config.json\<close> when \<^verbatim>\<open>os.path.exists\<close> holds for it
  (the parsed value, or the exception of the parser). The parser itself is not part of
  the model.
\<close>

record folder =
  folder_files :: "(string \<times> (py_error + byte list)) list"
  folder_config :: "(py_error + json) option"

text \<open>
  \<^verbatim>\<open>
  def _get_tool_files(self, folder_path):
      files = []
      for root, _, filenames in os.walk(folder_path):
          for filename in filenames:
              ...
              with open(file_path, "rb") as f:
                  content = base64.b64encode(f.read()).decode("utf-8")
              files.append({"path": relative_path, "content": content})
      return files
  \<close>
  The first file that cannot be read ends the loop with its exception.
\<close>

definition file_record :: "string \<Rightarrow> byte list \<Rightarrow> json" where
  "file_record relative_path bytes =
     JObj [(''path'', JStr relative_path), (''content'', JStr (b64encode bytes))]"

fun read_tool_files :: "(string \<times> (py_error + byte list)) list \<Rightarrow> py_error + json list" where
  "read_tool_files [] = Inr []"
| "read_tool_files ((relative_path, r) # rest) =
     (case r of
        Inl e \<Rightarrow> Inl e
      | Inr bytes \<Rightarrow>
          (case read_tool_files rest of
             Inl e \<Rightarrow> Inl e
           | Inr records \<Rightarrow> Inr (file_record relative_path bytes # records)))"

definition get_tool_files :: "folder \<Rightarrow> py_error + json list" where
  "get_tool_files fd = read_tool_files (folder_files fd)"

text \<open>
  \<^verbatim>\<open>
  def _get_tool_metadata(self, folder_path):
      config_path = os.path.join(folder_path, "config.json")
      if os.path.exists(config_path):
          with open(config_path, "r") as f:
              return json.load(f)
      return {}
  \<close>
\<close>

definition get_tool_metadata :: "folder \<Rightarrow> py_error + json" where
  "get_tool_metadata fd = (case folder_config fd of None \<Rightarrow> Inr (JObj []) | Some r \<Rightarrow> r)"

text \<open>
  \<^verbatim>\<open>
  def package_tool(self, folder_path):
      tool_files = self._get_tool_files(folder_path)
      metadata = self._get_tool_metadata(folder_path)
      return {
          "author": metadata.get("meta", {}).get("author"),
          "name": metadata.get("name"),
          "version": metadata.get("meta", {}).get("version"),
          "license": metadata.get("license", "Unknown"),
          "files": tool_files,
          "entry": metadata.get("build", {}).get("entry", "tool.py"),
          "module": metadata.get("build", {}).get("module", "Tool"),
      }
  \<close>
\<close>

definition package_tool :: "folder \<Rightarrow> py_error + json" where
  "package_tool fd =
     (and_then (get_tool_files fd) (\<lambda>tool_files.
      and_then (get_tool_metadata fd) (\<lambda>metadata.
      and_then (and_then (py_get metadata ''meta'' (JObj [])) (\<lambda>m. py_get m ''author'' JNull))
        (\<lambda>author.
      and_then (py_get metadata ''name'' JNull) (\<lambda>name.
      and_then (and_then (py_get metadata ''meta'' (JObj [])) (\<lambda>m. py_get m ''version'' JNull))
        (\<lambda>version.
      and_then (py_get metadata ''license'' (JStr ''Unknown'')) (\<lambda>license.
      and_then (and_then (py_get metadata ''build'' (JObj []))
                  (\<lambda>b. py_get b ''entry'' (JStr ''tool.py''))) (\<lambda>entry.
      and_then (and_then (py_get metadata ''build'' (JObj []))
                  (\<lambda>b. py_get b ''module'' (JStr ''Tool''))) (\<lambda>module.
      Inr (JObj [(''author'', author), (''name'', name), (''version'', version),
                 (''license'', license), (''files'', JArr tool_files),
                 (''entry'', entry), (''module'', module)]))))))))))"

subsection \<open>PackageCodec: the class \<^verbatim>\<open>ToolPackage\<close>\<close>

text \<open>
  A package in memory: \<^verbatim>\<open>tool_package.metadata\<close> and \<^verbatim>\<open>tool_package.files\<close>, a
  dictionary from paths to bytes.
\<close>

record tool_package =
  metadata :: "(string \<times> json) list"
  files :: "json \<rightharpoonup> byte list"

text \<open>The cache on disk: what each path holds, a stored package or an unreadable entry.\<close>

datatype cache_entry = Corrupt | Stored tool_package

type_synonym disk = "string \<rightharpoonup> cache_entry"

text \<open>
  Modelled from the spec: \<^verbatim>\<open>ToolPackage.load\<close> of \<^verbatim>\<open>cerebrum/manager/package.py\<close>,
  which is not among the sources. Section 4.3: \<^verbatim>\<open>load(path) -> package\<close> fails with
  \<^verbatim>\<open>NotFoundError\<close> if \<open>path\<close> does not exist and with \<^verbatim>\<open>CorruptPackageError\<close> if
  the persisted structure cannot be parsed into metadata and files.
\<close>

definition package_load :: "disk \<Rightarrow> string \<Rightarrow> py_error + tool_package" where
  "package_load d path =
     (case d path of
        None \<Rightarrow> Inl NotFoundError
      | Some Corrupt \<Rightarrow> Inl CorruptPackageError
      | Some (Stored p) \<Rightarrow> Inr p)"

text \<open>
  Modelled from the spec: \<^verbatim>\<open>ToolPackage.save\<close> of \<^verbatim>\<open>cerebrum/manager/package.py\<close>,
  which is not among the sources. Section 4.3: \<^verbatim>\<open>save(package, path)\<close> writes the
  metadata and the files to a single persisted entry at \<open>path\<close> and overwrites any
  existing entry at that path.
\<close>

definition package_save :: "tool_package \<Rightarrow> string \<Rightarrow> disk \<Rightarrow> disk" where
  "package_save p path d = d(path \<mapsto> Stored p)"

subsection \<open>\<^verbatim>\<open>_save_tool_to_cache\<close>\<close>

text \<open>
  \<^verbatim>\<open>
  def _save_tool_to_cache(self, tool_data, cache_path):
      tool_package = ToolPackage(cache_path)
      tool_package.metadata = {
          "author": tool_data["author"], "name": tool_data["name"],
          "version": tool_data["version"], "license": tool_data["license"],
          "entry": tool_data["entry"], "module": tool_data["module"],
      }
      tool_package.files = {
          file["path"]: base64.b64decode(file["content"])
          for file in tool_data["files"]
      }
      tool_package.save()
  \<close>
  \<^verbatim>\<open>b64decode\<close> takes a text (or bytes, which JSON does not have) and raises
  \<^verbatim>\<open>TypeError\<close> on any other value. One item of the comprehension evaluates the
  key, then the value, and then stores the pair, where a key that is not hashable
  raises \<^verbatim>\<open>TypeError\<close>.
\<close>

fun b64decode_value :: "json \<Rightarrow> py_error + byte list" where
  "b64decode_value (JStr s) = b64decode s"
| "b64decode_value _ = Inl TypeError"

definition file_item :: "json \<Rightarrow> py_error + (json \<times> byte list)" where
  "file_item file =
     and_then (subscript file ''path'') (\<lambda>p.
     and_then (subscript file ''content'') (\<lambda>c.
     and_then (b64decode_value c) (\<lambda>b.
     and_then (dict_key p) (\<lambda>k. Inr (k, b)))))"

fun files_dict :: "json list \<Rightarrow> (json \<rightharpoonup> byte list) \<Rightarrow> py_error + (json \<rightharpoonup> byte list)" where
  "files_dict [] d = Inr d"
| "files_dict (file # rest) d =
     (case file_item file of
        Inl e \<Rightarrow> Inl e
      | Inr (k, b) \<Rightarrow> files_dict rest (d(k \<mapsto> b)))"

definition payload_metadata :: "json \<Rightarrow> py_error + (string \<times> json) list" where
  "payload_metadata tool_data =
     and_then (subscript tool_data ''author'') (\<lambda>author.
     and_then (subscript tool_data ''name'') (\<lambda>name.
     and_then (subscript tool_data ''version'') (\<lambda>version.
     and_then (subscript tool_data ''license'') (\<lambda>license.
     and_then (subscript tool_data ''entry'') (\<lambda>entry.
     and_then (subscript tool_data ''module'') (\<lambda>module.
     Inr [(''author'', author), (''name'', name), (''version'', version),
          (''license'', license), (''entry'', entry), (''module'', module)]))))))"

definition payload_files :: "json \<Rightarrow> py_error + json list" where
  "payload_files tool_data = and_then (subscript tool_data ''files'') iterate"

definition save_tool_to_cache :: "json \<Rightarrow> string \<Rightarrow> disk \<Rightarrow> py_error + disk" where
  "save_tool_to_cache tool_data cache_path d =
     and_then (payload_metadata tool_data) (\<lambda>md.
     and_then (payload_files tool_data) (\<lambda>items.
     and_then (files_dict items Map.empty) (\<lambda>fs.
     Inr (package_save \<lparr>metadata = md, files = fs\<rparr> cache_path d))))"

subsection \<open>Shapes of configurations\<close>

text \<open>
  The configuration schema: the folder has no \<^verbatim>\<open>config.json\<close>, or the file holds
  an object whose members \<^verbatim>\<open>meta\<close> and \<^verbatim>\<open>build\<close>, when present, are objects.
\<close>

fun is_object :: "json \<Rightarrow> bool" where
  "is_object (JObj kvs) = True"
| "is_object _ = False"

definition object_or_absent :: "(string \<times> json) list \<Rightarrow> string \<Rightarrow> bool" where
  "object_or_absent kvs key = (case map_of kvs key of None \<Rightarrow> True | Some v \<Rightarrow> is_object v)"

fun config_shape :: "(py_error + json) option \<Rightarrow> bool" where
  "config_shape None = True"
| "config_shape (Some (Inr (JObj kvs))) =
     (object_or_absent kvs ''meta'' \<and> object_or_absent kvs ''build'')"
| "config_shape _ = False"

text \<open>
  The member \<open>key\<close> of an object, or \<open>dflt\<close> when the object has no such member; and
  the member \<open>key\<close> of the nested object \<open>outer\<close>, or \<open>dflt\<close> when either is absent.
\<close>

definition member_or :: "(string \<times> json) list \<Rightarrow> string \<Rightarrow> json \<Rightarrow> json" where
  "member_or kvs key dflt = (case map_of kvs key of None \<Rightarrow> dflt | Some v \<Rightarrow> v)"

definition nested_or :: "(string \<times> json) list \<Rightarrow> string \<Rightarrow> string \<Rightarrow> json \<Rightarrow> json" where
  "nested_or kvs outer key dflt =
     (case map_of kvs outer of
        Some (JObj inner) \<Rightarrow> member_or inner key dflt
      | _ \<Rightarrow> dflt)"

definition config_members :: "folder \<Rightarrow> (string \<times> json) list" where
  "config_members fd =
     (case folder_config fd of Some (Inr (JObj kvs)) \<Rightarrow> kvs | _ \<Rightarrow> [])"

text \<open>
  A folder whose files can all be read, and the records of the files of a folder that
  can be read.
\<close>

fun readable :: "string \<times> (py_error + byte list) \<Rightarrow> bool" where
  "readable (relative_path, Inr bytes) = True"
| "readable (relative_path, Inl e) = False"

definition all_readable :: "folder \<Rightarrow> bool" where
  "all_readable fd = list_all readable (folder_files fd)"

fun records_of :: "string \<times> (py_error + byte list) \<Rightarrow> json list" where
  "records_of (relative_path, Inr bytes) = [file_record relative_path bytes]"
| "records_of (relative_path, Inl e) = []"

definition file_records :: "folder \<Rightarrow> json list" where
  "file_records fd = concat (map records_of (folder_files fd))"

text \<open>
  A folder with the files \<^verbatim>\<open>config.json\<close> and \<^verbatim>\<open>main.py\<close>, where the
  configuration names no module and no license:
  \<^verbatim>\<open>{"name": "demo", "meta": {"author": "alice", "version": "1.0.0"}, "build": {"entry": "main.py"}}\<close>
\<close>

definition example_config_bytes :: "byte list" where
  "example_config_bytes = [
      123, 34, 110, 97, 109, 101, 34, 58, 32, 34, 100, 101, 109, 111, 34, 44,
      32, 34, 109, 101, 116, 97, 34, 58, 32, 123, 34, 97, 117, 116, 104, 111,
      114, 34, 58, 32, 34, 97, 108, 105, 99, 101, 34, 44, 32, 34, 118, 101,
      114, 115, 105, 111, 110, 34, 58, 32, 34, 49, 46, 48, 46, 48, 34, 125,
      44, 32, 34, 98, 117, 105, 108, 100, 34, 58, 32, 123, 34, 101, 110, 116,
      114, 121, 34, 58, 32, 34, 109, 97, 105, 110, 46, 112, 121, 34, 125, 125]"

definition example_folder :: folder where
  "example_folder =
     \<lparr>folder_files = [(''config.json'', Inr example_config_bytes), (''main.py'', Inr [104, 105])],
      folder_config = Some (Inr (JObj
        [(''name'', JStr ''demo''),
         (''meta'', JObj [(''author'', JStr ''alice''), (''version'', JStr ''1.0.0'')]),
         (''build'', JObj [(''entry'', JStr ''main.py'')])]))\<rparr>"

text \<open>
  A folder that holds nothing, and a folder whose only file is the configuration
  \<^verbatim>\<open>{"meta": "x"}\<close>.
\<close>

definition empty_folder :: folder where
  "empty_folder = \<lparr>folder_files = [], folder_config = None\<rparr>"

definition text_meta_folder :: folder where
  "text_meta_folder =
     \<lparr>folder_files = [(''config.json'', Inr [123, 34, 109, 101, 116, 97, 34, 58, 32, 34, 120, 34, 125])],
      folder_config = Some (Inr (JObj [(''meta'', JStr ''x'')]))\<rparr>"

text \<open>
  A downloaded payload whose list of files names the path \<^verbatim>\<open>a.py\<close> twice, first with
  the content \<^verbatim>\<open>A\<close> and then with the content \<^verbatim>\<open>B\<close>.
\<close>

definition payload_fields :: "(string \<times> json) list" where
  "payload_fields =
     [(''author'', JStr ''alice''), (''name'', JStr ''demo''), (''version'', JStr ''1.0.0''),
      (''license'', JStr ''MIT''), (''entry'', JStr ''a.py''), (''module'', JStr ''Tool'')]"

definition file_entry :: "string \<Rightarrow> string \<Rightarrow> json" where
  "file_entry p c = JObj [(''path'', JStr p), (''content'', JStr c)]"

definition duplicate_payload :: json where
  "duplicate_payload =
     JObj (payload_fields
           @ [(''files'', JArr [file_entry ''a.py'' ''QQ=='', file_entry ''a.py'' ''Qg==''])])"

subsection \<open>CacheStore: \<^verbatim>\<open>_get_cached_versions\<close>\<close>

text \<open>
  What the path \<^verbatim>\<open>cache_dir / author / name\<close> holds: nothing, a file, or a directory
  with its entries in the order the scan gives them, each a name and whether
  \<^verbatim>\<open>is_file()\<close> holds for it.
\<close>

datatype fs_node = Missing | RegularFile | Directory "(string \<times> bool) list"

text \<open>The pattern \<^verbatim>\<open>*.tool\<close> of \<^verbatim>\<open>glob\<close>: the name ends with \<^verbatim>\<open>.tool\<close>.\<close>

definition has_tool_ext :: "string \<Rightarrow> bool" where
  "has_tool_ext n = (length n \<ge> 5 \<and> drop (length n - 5) n = ''.tool'')"

text \<open>
  \<^verbatim>\<open>name.rfind(".")\<close> and the property \<^verbatim>\<open>stem\<close> of a path: the name up to its last
  dot, unless that dot is the first or the last character of the name.
\<close>

definition rfind :: "char \<Rightarrow> string \<Rightarrow> nat option" where
  "rfind c s =
     (if c \<in> set s then Some (length s - 1 - length (takeWhile (\<lambda>x. x \<noteq> c) (rev s)))
      else None)"

definition stem :: "string \<Rightarrow> string" where
  "stem n =
     (case rfind CHR ''.'' n of
        None \<Rightarrow> n
      | Some i \<Rightarrow> if 0 < i \<and> i < length n - 1 then take i n else n)"

text \<open>
  \<^verbatim>\<open>
  def _get_cached_versions(self, author, name):
      tool_dir = self.cache_dir / author / name
      if tool_dir.exists():
          return [
              self._path_to_version(v.stem)
              for v in tool_dir.glob("*.tool")
              if v.is_file()
          ]
      return []
  \<close>
  \<^verbatim>\<open>glob\<close> on a path that is not a directory gives nothing.
\<close>

definition get_cached_versions :: "fs_node \<Rightarrow> string list" where
  "get_cached_versions tool_dir =
     (case tool_dir of
        Missing \<Rightarrow> []
      | RegularFile \<Rightarrow> []
      | Directory entries \<Rightarrow>
          map (\<lambda>v. path_to_version (stem (fst v)))
            (filter (\<lambda>v. has_tool_ext (fst v) \<and> snd v) entries))"

subsection \<open>Text of manifests and listings\<close>











subsection \<open>DependencyInstaller: \<^verbatim>\<open>check_reqs_installed\<close>\<close>










subsection \<open>DependencyInstaller: \<^verbatim>\<open>install_tool_reqs\<close>\<close>

text \<open>
  The outcome of \<^verbatim>\<open>subprocess.check_call\<close> on the installer: the process exits with
  status zero, it exits with another status (\<^verbatim>\<open>CalledProcessError\<close>), or the call
  raises something else. The scratch files are a map from paths to contents; writing
  the scratch file is taken to succeed.
\<close>

datatype installer_run = ExitZero | ExitNonZero | InstallerRaises py_error

type_synonym scratch_files = "string \<rightharpoonup> byte list"

definition temp_reqs_path :: "string \<Rightarrow> string" where
  "temp_reqs_path cache_dir = cache_dir @ ''/temp_requirements.txt''"

definition check_call :: "installer_run \<Rightarrow> py_error + unit" where
  "check_call installer =
     (case installer of
        ExitZero \<Rightarrow> Inr ()
      | ExitNonZero \<Rightarrow> Inl CalledProcessError
      | InstallerRaises e \<Rightarrow> Inl e)"

text \<open>
  \<^verbatim>\<open>
  def install_tool_reqs(self, tool_path):
      tool_package = ToolPackage(tool_path)
      tool_package.load()
      reqs_content = tool_package.files.get("requirements.txt")
      if not reqs_content:
          print("No requirements.txt found. Skipping dependency installation.")
          return
      temp_reqs_path = self.cache_dir / "temp_requirements.txt"
      with open(temp_reqs_path, "wb") as f:
          f.write(reqs_content)
      try:
          subprocess.check_call(
              [sys.executable, "-m", "pip", "install", "-r", str(temp_reqs_path)])
          print("Tool requirements installed successfully.")
      except subprocess.CalledProcessError as e:
          print(f"Error installing requirements: {e}")
      finally:
          temp_reqs_path.unlink(missing_ok=True)
  \<close>
  The result is the scratch files after the call and what the call returns or raises.
\<close>

definition install_tool_reqs ::
  "disk \<Rightarrow> string \<Rightarrow> string \<Rightarrow> installer_run \<Rightarrow> scratch_files
     \<Rightarrow> scratch_files \<times> (py_error + unit)" where
  "install_tool_reqs d tool_path cache_dir installer fs =
     (case package_load d tool_path of
        Inl e \<Rightarrow> (fs, Inl e)
      | Inr tool_package \<Rightarrow>
          (case files tool_package (JStr ''requirements.txt'') of
             None \<Rightarrow> (fs, Inr ())
           | Some reqs_content \<Rightarrow>
               if reqs_content = [] then (fs, Inr ())
               else
                 let written = fs(temp_reqs_path cache_dir \<mapsto> reqs_content);
                     outcome = (case check_call installer of
                                  Inl e \<Rightarrow> if e = CalledProcessError then Inr () else Inl e
                                | Inr u \<Rightarrow> Inr u)
                 in (written(temp_reqs_path cache_dir := None), outcome)))"

text \<open>
  Example packages on disk: one without a manifest, one whose manifest is the single
  comment line \<^verbatim>\<open># none\<close>, and one whose manifest is the lines \<^verbatim>\<open>Flask==1.0\<close> and
  \<^verbatim>\<open># web\<close>; and a listing of installed packages with the line \<^verbatim>\<open>flask==2.0\<close>.
\<close>

definition requirements_key :: json where
  "requirements_key = JStr ''requirements.txt''"

definition disk_with :: "(json \<rightharpoonup> byte list) \<Rightarrow> disk" where
  "disk_with fs = [''t.tool'' \<mapsto> Stored \<lparr>metadata = [], files = fs\<rparr>]"


definition flask_manifest :: "byte list" where
  "flask_manifest = [70, 108, 97, 115, 107, 61, 61, 49, 46, 48, 10, 35, 32, 119, 101, 98, 10]"


subsection \<open>Loader: \<^verbatim>\<open>load_tool\<close> with \<^verbatim>\<open>local=True\<close>\<close>

text \<open>
  The process-wide state that the loader changes: the module search path
  \<^verbatim>\<open>sys.path\<close> and the module registry \<^verbatim>\<open>sys.modules\<close>. A module object is
  known by its name, the tool directory and the entry file it was created for.
\<close>

datatype py_module = Module string string string

datatype tool_class = ToolClass string

record interpreter =
  sys_path :: "string list"
  sys_modules :: "string \<rightharpoonup> py_module"

text \<open>
  What the import machinery does with the entry file, for a module name and an entry
  point that are texts: building the specification or the module object raises (line
  162 to 167, before the module is registered), executing the module raises (line 169,
  after it is registered), the module has no attribute of the module's name (line
  172), or the attribute is found. The code of the tool is taken to leave
  \<^verbatim>\<open>sys.path\<close> and the registry entry of the module alone.
\<close>

datatype import_run =
    SpecRaises py_error
  | ExecRaises py_error
  | NoAttribute
  | Imported tool_class

text \<open>
  What one call reads from its surroundings: \<^verbatim>\<open>str(self.local_tools_dir / name)\<close>,
  whether that path exists, the outcome of opening and parsing \<^verbatim>\<open>config.json\<close>
  there, \<^verbatim>\<open>str(Path.cwd())\<close>, and the run of the import machinery.
\<close>

record local_tool =
  local_tool_path :: string
  local_tool_exists :: bool
  local_tool_config :: "py_error + json"
  current_path :: string
  import_run :: import_run

text \<open>\<^verbatim>\<open>tool_config["build"][key]\<close>\<close>

definition build_member :: "json \<Rightarrow> string \<Rightarrow> py_error + json" where
  "build_member config key = and_then (subscript config ''build'') (\<lambda>b. subscript b key)"

text \<open>
  \<^verbatim>\<open>
  current_path = str(Path.cwd())
  if current_path not in sys.path:
      sys.path.insert(0, current_path)
  sys.path.insert(0, str(tool_path))
  \<close>
\<close>

definition push_search_path :: "local_tool \<Rightarrow> interpreter \<Rightarrow> interpreter" where
  "push_search_path env s =
     (let s1 = (if current_path env \<notin> set (sys_path s)
                then s\<lparr>sys_path := current_path env # sys_path s\<rparr> else s)
      in s1\<lparr>sys_path := local_tool_path env # sys_path s1\<rparr>)"

text \<open>
  The body of the inner \<^verbatim>\<open>try\<close>:
  \<^verbatim>\<open>
  spec = importlib.util.spec_from_file_location(
      module_name, str(tool_path / entry_point),
      submodule_search_locations=[str(tool_path)] + sys.path)
  module = importlib.util.module_from_spec(spec)
  sys.modules[module_name] = module
  spec.loader.exec_module(module)
  tool_class = getattr(module, module_name)
  return tool_class, tool_config
  \<close>
  An entry point that is not a text makes \<^verbatim>\<open>tool_path / entry_point\<close> raise
  \<^verbatim>\<open>TypeError\<close>; a module name that is not a text makes \<^verbatim>\<open>module_from_spec\<close> raise
  \<^verbatim>\<open>TypeError\<close>. Both happen before the module is registered.
\<close>

definition try_body ::
  "local_tool \<Rightarrow> json \<Rightarrow> json \<Rightarrow> json \<Rightarrow> interpreter
     \<Rightarrow> interpreter \<times> (py_error + tool_class \<times> json)" where
  "try_body env entry_point module_name config s =
     (case entry_point of
        JStr entry \<Rightarrow>
          (case import_run env of
             SpecRaises e \<Rightarrow> (s, Inl e)
           | run \<Rightarrow>
               (case module_name of
                  JStr name \<Rightarrow>
                    let s' = s\<lparr>sys_modules :=
                                 (sys_modules s)(name \<mapsto> Module name (local_tool_path env) entry)\<rparr>
                    in (case run of
                          ExecRaises e \<Rightarrow> (s', Inl e)
                        | NoAttribute \<Rightarrow> (s', Inl AttributeError)
                        | Imported tool_class \<Rightarrow> (s', Inr (tool_class, config))
                        | SpecRaises e \<Rightarrow> (s, Inl e))
                | _ \<Rightarrow> (s, Inl TypeError)))
      | _ \<Rightarrow> (s, Inl TypeError))"

text \<open>
  The \<^verbatim>\<open>finally\<close> block, which runs after the body whatever its outcome \<open>r\<close>:
  \<^verbatim>\<open>
  sys.path.pop(0)
  if current_path == sys.path[0]:
      sys.path.pop(0)
  if module_name in sys.modules:
      del sys.modules[module_name]
  \<close>
  \<^verbatim>\<open>pop(0)\<close> and \<^verbatim>\<open>sys.path[0]\<close> raise \<^verbatim>\<open>IndexError\<close> on an empty list, and the
  membership test raises \<^verbatim>\<open>TypeError\<close> for a name that is not hashable; an exception
  in the block ends it and takes the place of the outcome of the body. The registry
  has texts as keys, so another hashable name is not in it.
\<close>

definition finally_cleanup ::
  "local_tool \<Rightarrow> json \<Rightarrow> interpreter \<Rightarrow> (py_error + tool_class \<times> json)
     \<Rightarrow> interpreter \<times> (py_error + tool_class \<times> json)" where
  "finally_cleanup env module_name s r =
     (case sys_path s of
        [] \<Rightarrow> (s, Inl IndexError)
      | _ # popped \<Rightarrow>
          (case popped of
             [] \<Rightarrow> (s\<lparr>sys_path := popped\<rparr>, Inl IndexError)
           | first # rest \<Rightarrow>
               let s' = s\<lparr>sys_path := (if current_path env = first then rest else popped)\<rparr>
               in (case module_name of
                     JStr name \<Rightarrow> (s'\<lparr>sys_modules := (sys_modules s')(name := None)\<rparr>, r)
                   | JArr xs \<Rightarrow> (s', Inl TypeError)
                   | JObj kvs \<Rightarrow> (s', Inl TypeError)
                   | _ \<Rightarrow> (s', r))))"

text \<open>
  \<^verbatim>\<open>
  def load_tool(self, author="", name="", version=None, local=False):
      try:
          if local:
              tool_path = self.local_tools_dir / name
              if not tool_path.exists():
                  raise FileNotFoundError(f"Local tool not found: {name}")
              config_path = tool_path / "config.json"
              with open(config_path) as f:
                  tool_config = json.load(f)
              entry_point = tool_config["build"]["entry"]
              module_name = tool_config["build"]["module"]
              ...
              try:
                  ...
              finally:
                  ...
      except Exception as e:
          print(f"Error loading tool {name}: {str(e)}")
          raise
  \<close>
  The outer handler prints and raises the same exception again.
\<close>

definition load_tool_local ::
  "local_tool \<Rightarrow> interpreter \<Rightarrow> interpreter \<times> (py_error + tool_class \<times> json)" where
  "load_tool_local env s =
     (if \<not> local_tool_exists env then (s, Inl FileNotFoundError)
      else
        (case local_tool_config env of
           Inl e \<Rightarrow> (s, Inl e)
         | Inr config \<Rightarrow>
             (case build_member config ''entry'' of
                Inl e \<Rightarrow> (s, Inl e)
              | Inr entry_point \<Rightarrow>
                  (case build_member config ''module'' of
                     Inl e \<Rightarrow> (s, Inl e)
                   | Inr module_name \<Rightarrow>
                       (case try_body env entry_point module_name config
                               (push_search_path env s) of
                          (s', r) \<Rightarrow> finally_cleanup env module_name s' r)))))"

text \<open>
  A local tool whose entry file defines the class, loaded from the working directory
  \<^verbatim>\<open>/work\<close> by an interpreter whose search path begins with that directory.
\<close>

definition demo_config :: json where
  "demo_config =
     JObj [(''build'', JObj [(''entry'', JStr ''tool.py''), (''module'', JStr ''Tool'')])]"

definition demo_tool :: local_tool where
  "demo_tool =
     \<lparr>local_tool_path = ''/tools/demo'', local_tool_exists = True, local_tool_config = Inr demo_config,
      current_path = ''/work'', import_run = Imported (ToolClass ''Tool'')\<rparr>"

definition started_in_work :: interpreter where
  "started_in_work =
     \<lparr>sys_path = [''/work'', ''/usr/lib/python3''],
      sys_modules = [''Tool'' \<mapsto> Module ''Tool'' ''/other'' ''tool.py'']\<rparr>"

subsection \<open>Facts about the text primitives\<close>

lemma split_on_not_Nil: "split_on sep s \<noteq> []"
  by (induction s) (auto split: list.splits)

lemma split_on_chars:
  "c \<in> set s \<Longrightarrow> c = sep \<or> (\<exists>p \<in> set (split_on sep s). c \<in> set p)"
proof (induction s)
  case Nil
  then show ?case by simp
next
  case (Cons a s)
  show ?case
  proof (cases "a = sep")
    case True
    with Cons show ?thesis by auto
  next
    case False
    obtain p ps where ps: "split_on sep s = p # ps"
      using split_on_not_Nil [of sep s] by (cases "split_on sep s") auto
    with Cons False show ?thesis by auto
  qed
qed

lemma replace_back:
  "b \<notin> set s \<Longrightarrow> replace_char b a (replace_char a b s) = s"
  by (induction s) (auto simp: replace_char_def)

lemma dotted_version_no_dash:
  assumes "dotted_version v"
  shows "CHR ''-'' \<notin> set v"
proof
  assume "CHR ''-'' \<in> set v"
  then obtain p where p: "p \<in> set (split_on CHR ''.'' v)" and c: "CHR ''-'' \<in> set p"
    using split_on_chars [of "CHR ''-''" v "CHR ''.''"] by auto
  from assms p have "list_all is_digit p"
    by (auto simp: dotted_version_def list_all_iff)
  with c have "is_digit CHR ''-''"
    by (auto simp: list_all_iff)
  then show False
    by (simp add: is_digit_def)
qed

subsection \<open>Facts about \<^verbatim>\<open>_get_newest_version\<close>\<close>

lemma key_le_iff: "key_le xs ys \<longleftrightarrow> xs \<le> ys"
  by (induction xs ys rule: key_le.induct) auto

lemma those_map_None: "those (map f xs) = None \<longleftrightarrow> (\<exists>x \<in> set xs. f x = None)"
  by (induction xs) (auto split: option.splits)

lemma those_map_Some:
  "those (map f xs) = Some ys \<Longrightarrow> ys = map (\<lambda>x. the (f x)) xs"
  by (induction xs arbitrary: ys) (auto split: option.splits)

lemma sorted_last_max:
  "sorted (map f xs) \<Longrightarrow> x \<in> set xs \<Longrightarrow> f x \<le> f (last xs)"
  by (induction xs) (auto split: if_splits)

lemma newest_of_keys:
  assumes ne: "versions \<noteq> []"
    and ks: "those (map version_key versions) = Some ks"
  shows "\<exists>v k. get_newest_version versions = Inr (Some v) \<and> v \<in> set versions
           \<and> version_key v = Some k
           \<and> (\<forall>w \<in> set versions. \<exists>kw. version_key w = Some kw \<and> key_le kw k)"
proof -
  let ?key = "\<lambda>v. the (version_key v)"
  let ?ps = "map (\<lambda>v. (?key v, v)) versions"
  let ?srt = "sort_key fst ?ps"
  have all: "\<forall>w \<in> set versions. version_key w \<noteq> None"
    using ks those_map_None [of version_key versions] by auto
  have zip: "zip ks versions = ?ps"
    using those_map_Some [OF ks] by (simp add: zip_map1 zip_same_conv_map)
  have res: "get_newest_version versions = Inr (Some (snd (last ?srt)))"
    using ne ks zip by (simp add: get_newest_version_def)
  have srt_ne: "?srt \<noteq> []"
    using ne by (metis (no_types, lifting) length_0_conv length_map length_sort)
  then have "last ?srt \<in> set ?srt"
    by (rule last_in_set)
  then have mem: "last ?srt \<in> set ?ps"
    by simp
  then obtain v where v: "v \<in> set versions" and lst: "last ?srt = (?key v, v)"
    by auto
  have mx: "fst p \<le> fst (last ?srt)" if "p \<in> set ?ps" for p
    using sorted_last_max [of fst ?srt p] that by simp
  have "\<exists>kw. version_key w = Some kw \<and> key_le kw (?key v)" if w: "w \<in> set versions" for w
  proof -
    from w all obtain kw where kw: "version_key w = Some kw"
      by auto
    from w have "(?key w, w) \<in> set ?ps"
      by auto
    from mx [OF this] lst kw show ?thesis
      by (simp add: key_le_iff)
  qed
  moreover from v all have "version_key v = Some (?key v)"
    by auto
  ultimately show ?thesis
    using res v lst by auto
qed

text \<open>
  \<^verbatim>\<open>int\<close> reads a run of decimal digits that is no longer than the limit of the
  interpreter as its decimal value.
\<close>

lemma digit_not_special:
  "is_digit c \<Longrightarrow> \<not> is_c_space c \<and> c \<noteq> CHR ''_'' \<and> c \<noteq> CHR ''-'' \<and> c \<noteq> CHR ''+''"
  by (auto simp: is_digit_def is_c_space_def)

lemma int_digits_plain: "p \<noteq> [] \<Longrightarrow> list_all is_digit p \<Longrightarrow> int_digits p = Some p"
  by (induction p rule: int_digits.induct) (auto simp: digit_not_special)

lemma strip_plain:
  assumes "p \<noteq> []" and "\<not> sp (hd p)" and "\<not> sp (last p)"
  shows "strip_with sp p = p"
proof -
  from assms have "dropWhile sp p = p"
    by (cases p) auto
  moreover from assms have "dropWhile sp (rev p) = rev p"
    by (cases "rev p") (auto simp: hd_rev)
  ultimately show ?thesis
    by (simp add: strip_with_def)
qed

lemma py_int_plain:
  assumes "p \<noteq> []" and "list_all is_digit p" and "length p \<le> int_max_str_digits"
  shows "py_int p = Some (decimal_val p)"
proof -
  from assms have h: "is_digit (hd p)" and l: "is_digit (last p)"
    by (auto simp: list_all_iff)
  have s: "strip_with is_c_space p = p"
    using assms(1) h l by (intro strip_plain) (auto simp: digit_not_special)
  obtain c r where p: "p = c # r"
    using assms(1) by (cases p) auto
  with h have "c \<noteq> CHR ''-''" "c \<noteq> CHR ''+''"
    by (auto simp: digit_not_special)
  then show ?thesis
    using int_digits_plain [OF assms(1,2)] assms(3) s p
    by (simp add: py_int_def Let_def)
qed

text \<open>
  What \<^verbatim>\<open>int\<close> accepts, as a property of the text: exactly the integer literals,
  read as their values (\<open>py_int_literal\<close>); so the key of a version exists exactly when
  all its components are integer literals (\<open>version_key_literal\<close>).
\<close>

lemma int_digits_grouped:
  "int_digits b = (if grouped_digits b then Some (filter is_digit b) else None)"
proof (induction b rule: int_digits.induct)
  case 1
  show ?case by (simp add: grouped_digits_def)
next
  case (2 c)
  show ?case by (simp add: grouped_digits_def)
next
  case (3 c d cs)
  show ?case
  proof (cases "is_digit c")
    case False
    then show ?thesis by (simp add: grouped_digits_def)
  next
    case c: True
    show ?thesis
    proof (cases "d = CHR ''_''")
      case True
      have "grouped_digits (c # d # cs) \<longleftrightarrow> grouped_digits cs"
        using c True
        by (cases cs) (auto simp: grouped_digits_def is_digit_def)
      with 3 c True show ?thesis
        by (simp add: is_digit_def)
    next
      case False
      have "grouped_digits (c # d # cs) \<longleftrightarrow> grouped_digits (d # cs)"
        using c False by (auto simp: grouped_digits_def digit_not_special)
      with 3 c False show ?thesis
        by simp
    qed
  qed
qed

lemma py_int_literal: "py_int p = (if int_literal p then Some (literal_value p) else None)"
proof (cases "strip_with is_c_space p")
  case Nil
  then show ?thesis
    by (simp add: py_int_def int_literal_def unsigned_part_def grouped_digits_def)
next
  case (Cons c r)
  show ?thesis
  proof (cases "c = CHR ''-'' \<or> c = CHR ''+''")
    case True
    with Cons show ?thesis
      by (auto simp: py_int_def int_literal_def unsigned_part_def literal_value_def
          int_digits_grouped is_digit_def)
  next
    case False
    with Cons show ?thesis
      by (auto simp: py_int_def int_literal_def unsigned_part_def literal_value_def
          int_digits_grouped Let_def)
  qed
qed

lemma digit_run_literal:
  assumes "digit_run p" and "length p \<le> int_max_str_digits"
  shows "int_literal p \<and> literal_value p = decimal_val p"
proof -
  from assms have "py_int p = Some (decimal_val p)"
    by (intro py_int_plain) (auto simp: digit_run_def)
  then show ?thesis
    by (simp add: py_int_literal split: if_splits)
qed

lemma those_map_total:
  "those (map f xs) = (if \<forall>x \<in> set xs. f x \<noteq> None then Some (map (\<lambda>x. the (f x)) xs) else None)"
  by (induction xs) (auto split: option.splits)

lemma version_key_literal:
  "version_key v = (if literal_version v then Some (component_values v) else None)"
  unfolding version_key_def those_map_total
  by (auto simp: literal_version_def component_values_def list_all_iff py_int_literal)


lemma newest_of_literals:
  assumes ne: "versions \<noteq> []" and lit: "\<forall>v \<in> set versions. literal_version v"
  shows "\<exists>v. get_newest_version versions = Inr (Some v) \<and> v \<in> set versions
           \<and> (\<forall>w \<in> set versions. key_le (component_values w) (component_values v))"
proof -
  from lit have "those (map version_key versions) = Some (map (\<lambda>v. the (version_key v)) versions)"
    by (simp add: those_map_total version_key_literal)
  from newest_of_keys [OF ne this] obtain v k where
    r: "get_newest_version versions = Inr (Some v)" and v: "v \<in> set versions"
    and k: "version_key v = Some k"
    and m: "\<forall>w \<in> set versions. \<exists>kw. version_key w = Some kw \<and> key_le kw k"
    by blast
  from k v lit have "k = component_values v"
    by (simp add: version_key_literal)
  with m lit have "\<forall>w \<in> set versions. key_le (component_values w) (component_values v)"
    by (auto simp: version_key_literal)
  with r v show ?thesis
    by blast
qed

lemma newest_not_literal:
  assumes "\<exists>v \<in> set versions. \<not> literal_version v"
  shows "get_newest_version versions = Inl ValueError"
proof -
  from assms have "versions \<noteq> []" "those (map version_key versions) = None"
    by (auto simp: those_map_total version_key_literal)
  then show ?thesis
    by (simp add: get_newest_version_def)
qed

lemma split_on_no_sep: "sep \<notin> set s \<Longrightarrow> split_on sep s = [s]"
  by (induction s) auto

lemma digit_run_plain:
  assumes "digit_run p"
  shows "unsigned_part p = p" and "filter is_digit p = p" and "CHR ''.'' \<notin> set p"
proof -
  from assms have ne: "p \<noteq> []" and all: "list_all is_digit p"
    by (simp_all add: digit_run_def)
  from ne have "hd p \<in> set p" "last p \<in> set p"
    by simp_all
  with all have h: "is_digit (hd p)" and l: "is_digit (last p)"
    by (simp_all add: list_all_iff)
  from h l have "\<not> is_c_space (hd p)" "\<not> is_c_space (last p)"
    using digit_not_special by blast+
  with ne have st: "strip_with is_c_space p = p"
    by (rule strip_plain)
  obtain c r where p: "p = c # r"
    using ne by (cases p) simp_all
  with h have "is_digit c"
    by simp
  then have sign: "c \<noteq> CHR ''-''" "c \<noteq> CHR ''+''"
    using digit_not_special by blast+
  from st have "unsigned_part p =
      (case p of [] \<Rightarrow> [] | c # r \<Rightarrow> if c = CHR ''-'' \<or> c = CHR ''+'' then r else c # r)"
    by (simp only: unsigned_part_def)
  also have "\<dots> = p"
    using sign by (simp add: p)
  finally show "unsigned_part p = p" .
  from all show "filter is_digit p = p"
    by (simp add: filter_id_conv list_all_iff)
  show "CHR ''.'' \<notin> set p"
  proof
    assume "CHR ''.'' \<in> set p"
    with all have "is_digit CHR ''.''"
      by (simp add: list_all_iff)
    then show False
      by (simp add: is_digit_def)
  qed
qed

lemma long_digit_run:
  assumes "digit_run p" and "int_max_str_digits < length p"
  shows "get_newest_version [p] = Inl ValueError"
proof -
  from assms have "\<not> int_literal p"
    by (simp add: int_literal_def digit_run_plain)
  moreover have "split_on CHR ''.'' p = [p]"
    using assms(1) by (intro split_on_no_sep digit_run_plain)
  ultimately have "\<not> literal_version p"
    by (simp add: literal_version_def)
  then show ?thesis
    by (intro newest_not_literal) simp
qed

lemma digit_run_replicate: "0 < n \<Longrightarrow> is_digit c \<Longrightarrow> digit_run (replicate n c)"
  by (auto simp: digit_run_def list_all_iff)

lemma ones_digit_run: "digit_run (replicate 4301 CHR ''1'')"
proof (rule digit_run_replicate)
  show "0 < (4301 :: nat)" by simp
  show "is_digit CHR ''1''" by (simp add: is_digit_def)
qed

lemma ones_rejected: "get_newest_version [replicate 4301 CHR ''1''] = Inl ValueError"
proof (rule long_digit_run [OF ones_digit_run])
  show "int_max_str_digits < length (replicate 4301 CHR ''1'')"
    by (simp only: length_replicate int_max_str_digits_def)
qed

subsection \<open>Facts about the Base64 transport\<close>

lemma b64_alphabet_distinct: "distinct b64_alphabet"
  by (simp add: b64_alphabet_def)

lemma b64_alphabet_length: "length b64_alphabet = 64"
  by (simp add: b64_alphabet_def)

lemma b64_index_char: "n < 64 \<Longrightarrow> b64_index (b64_char n) = Some n"
  unfolding b64_index_def b64_char_def
  using map_of_zip_nth [of b64_alphabet "[0 ..< 64]" n]
  by (simp add: b64_alphabet_distinct b64_alphabet_length)

lemma b64_char_in: "n < 64 \<Longrightarrow> b64_char n \<in> set b64_alphabet"
  by (simp add: b64_char_def b64_alphabet_length)

lemma b64_alphabet_ascii: "c \<in> set b64_alphabet \<Longrightarrow> is_ascii c \<and> c \<noteq> CHR ''=''"
  by (auto simp: b64_alphabet_def is_ascii_def)

lemma b64_char_plain: "n < 64 \<Longrightarrow> is_ascii (b64_char n) \<and> b64_char n \<noteq> CHR ''=''"
  using b64_char_in b64_alphabet_ascii by blast


lemma a2b_data:
  assumes "n < 64"
  shows "a2b_base64 q l p out (b64_char n # rest) =
     (if q = 0 then a2b_base64 1 n 0 out rest
      else if q = 1 then a2b_base64 2 (n mod 16) 0 (out @ [of_nat (l * 4 + n div 16)]) rest
      else if q = 2 then a2b_base64 3 (n mod 4) 0 (out @ [of_nat (l * 16 + n div 4)]) rest
      else a2b_base64 0 0 0 (out @ [of_nat (l * 64 + n)]) rest)"
  using b64_char_plain [OF assms] b64_index_char [OF assms] by simp

lemma a2b_pad:
  "a2b_base64 q l p out (CHR ''='' # rest) =
     (if q \<ge> 2 \<and> q + (p + 1) \<ge> 4 then Inr out
      else a2b_base64 q l (if q \<ge> 2 then p + 1 else p) out rest)"
  by simp

lemmas a2b_steps = a2b_data a2b_pad a2b_base64.simps(1)

lemma sextets:
  fixes x y :: nat
  assumes "x < 256" "y < 256"
  shows "x div 4 < 64" "x mod 4 * 16 + y div 16 < 64" "x mod 16 * 4 + y div 64 < 64"
    "x mod 64 < 64" "x mod 4 * 16 < 64" "x mod 16 * 4 < 64"
  using assms by simp_all

lemma regroup:
  fixes x y z :: nat
  assumes "x < 256" "y < 256" "z < 256"
  shows "x div 4 * 4 + (x mod 4 * 16 + y div 16) div 16 = x"
    "(x mod 4 * 16 + y div 16) mod 16 * 16 + (y mod 16 * 4 + z div 64) div 4 = y"
    "(y mod 16 * 4 + z div 64) mod 4 * 64 + z mod 64 = z"
    "x div 4 * 4 + (x mod 4 * 16) div 16 = x"
    "(x mod 4 * 16 + y div 16) mod 16 * 16 + (y mod 16 * 4) div 4 = y"
  using assms by simp_all

lemma byte_lt: "unat (a :: byte) < 256"
  using unsigned_less [of a, where 'a = nat] by simp

lemma a2b_quad:
  assumes "s1 < 64" "s2 < 64" "s3 < 64" "s4 < 64"
  shows "a2b_base64 0 l p out (b64_char s1 # b64_char s2 # b64_char s3 # b64_char s4 # rest)
    = a2b_base64 0 0 0
        (out @ [of_nat (s1 * 4 + s2 div 16), of_nat (s2 mod 16 * 16 + s3 div 4),
                of_nat (s3 mod 4 * 64 + s4)]) rest"
  using assms by (simp del: a2b_base64.simps add: a2b_steps)

lemma a2b_tail3:
  assumes "s1 < 64" "s2 < 64" "s3 < 64"
  shows "a2b_base64 0 l p out [b64_char s1, b64_char s2, b64_char s3, CHR ''='']
    = Inr (out @ [of_nat (s1 * 4 + s2 div 16), of_nat (s2 mod 16 * 16 + s3 div 4)])"
  using assms by (simp del: a2b_base64.simps add: a2b_steps)

lemma a2b_tail2:
  assumes "s1 < 64" "s2 < 64"
  shows "a2b_base64 0 l p out [b64_char s1, b64_char s2, CHR ''='', CHR ''='']
    = Inr (out @ [of_nat (s1 * 4 + s2 div 16)])"
  using assms by (simp del: a2b_base64.simps add: a2b_steps)

lemma a2b_roundtrip: "a2b_base64 0 l p out (b64encode bs) = Inr (out @ bs)"
proof (induction bs arbitrary: l p out rule: b64encode.induct)
  case 1
  show ?case by simp
next
  case (2 a)
  note s = sextets [OF byte_lt [of a] byte_lt [of a]]
  have "a2b_base64 0 l p out (b64encode [a])
      = Inr (out @ [of_nat (unat a div 4 * 4 + (unat a mod 4 * 16) div 16)])"
    unfolding b64encode.simps by (rule a2b_tail2) (rule s)+
  also have "unat a div 4 * 4 + (unat a mod 4 * 16) div 16 = unat a"
    by (rule regroup [OF byte_lt byte_lt byte_lt])
  finally show ?case by simp
next
  case (3 a b)
  note s = sextets [OF byte_lt [of a] byte_lt [of b]] sextets [OF byte_lt [of b] byte_lt [of b]]
  have "a2b_base64 0 l p out (b64encode [a, b])
      = Inr (out @ [of_nat (unat a div 4 * 4 + (unat a mod 4 * 16 + unat b div 16) div 16),
           of_nat ((unat a mod 4 * 16 + unat b div 16) mod 16 * 16 + (unat b mod 16 * 4) div 4)])"
    unfolding b64encode.simps by (rule a2b_tail3) (rule s)+
  also have "unat a div 4 * 4 + (unat a mod 4 * 16 + unat b div 16) div 16 = unat a"
    by (rule regroup [OF byte_lt byte_lt byte_lt])
  also have "(unat a mod 4 * 16 + unat b div 16) mod 16 * 16 + (unat b mod 16 * 4) div 4 = unat b"
    by (rule regroup [OF byte_lt byte_lt byte_lt])
  finally show ?case by simp
next
  case (4 a b c rest)
  note s = sextets [OF byte_lt [of a] byte_lt [of b]] sextets [OF byte_lt [of b] byte_lt [of c]]
    sextets [OF byte_lt [of c] byte_lt [of c]]
  have "a2b_base64 0 l p out (b64encode (a # b # c # rest))
      = a2b_base64 0 0 0
         (out @ [of_nat (unat a div 4 * 4 + (unat a mod 4 * 16 + unat b div 16) div 16),
           of_nat ((unat a mod 4 * 16 + unat b div 16) mod 16 * 16
                    + (unat b mod 16 * 4 + unat c div 64) div 4),
           of_nat ((unat b mod 16 * 4 + unat c div 64) mod 4 * 64 + unat c mod 64)])
         (b64encode rest)"
    unfolding b64encode.simps append_Cons append_Nil by (rule a2b_quad) (rule s)+
  also have "unat a div 4 * 4 + (unat a mod 4 * 16 + unat b div 16) div 16 = unat a"
    by (rule regroup [OF byte_lt byte_lt byte_lt])
  also have "(unat a mod 4 * 16 + unat b div 16) mod 16 * 16
               + (unat b mod 16 * 4 + unat c div 64) div 4 = unat b"
    by (rule regroup [OF byte_lt byte_lt byte_lt])
  also have "(unat b mod 16 * 4 + unat c div 64) mod 4 * 64 + unat c mod 64 = unat c"
    by (rule regroup [OF byte_lt byte_lt byte_lt])
  finally show ?case
    by (simp add: 4)
qed

lemma is_ascii_pad: "is_ascii CHR ''=''"
  by (simp add: is_ascii_def)

lemma b64encode_ascii: "list_all is_ascii (b64encode bs)"
proof (induction bs rule: b64encode.induct)
  case (4 a b c rest)
  note s = sextets [OF byte_lt [of a] byte_lt [of b]] sextets [OF byte_lt [of b] byte_lt [of c]]
    sextets [OF byte_lt [of c] byte_lt [of c]]
  from 4 show ?case
    by (simp add: b64_char_plain s)
next
  case (3 a b)
  note s = sextets [OF byte_lt [of a] byte_lt [of b]] sextets [OF byte_lt [of b] byte_lt [of b]]
  show ?case
    by (simp add: b64_char_plain s is_ascii_pad)
next
  case (2 a)
  note s = sextets [OF byte_lt [of a] byte_lt [of a]]
  show ?case
    by (simp add: b64_char_plain s is_ascii_pad)
qed simp

subsection \<open>Facts about \<^verbatim>\<open>package_tool\<close>\<close>

lemma read_all_readable:
  "list_all readable fs \<Longrightarrow> read_tool_files fs = Inr (concat (map records_of fs))"
proof (induction fs)
  case Nil
  show ?case by simp
next
  case (Cons f fs)
  obtain p r where f: "f = (p, r)"
    by (cases f)
  with Cons show ?case
    by (cases r) simp_all
qed

lemma get_tool_files_readable: "all_readable fd \<Longrightarrow> get_tool_files fd = Inr (file_records fd)"
  by (simp add: all_readable_def get_tool_files_def file_records_def read_all_readable)

lemma py_get_nested:
  "object_or_absent kvs outer \<Longrightarrow>
   and_then (py_get (JObj kvs) outer (JObj [])) (\<lambda>m. py_get m key dflt)
     = Inr (nested_or kvs outer key dflt)"
  by (cases "map_of kvs outer"; cases "the (map_of kvs outer)")
     (auto simp: object_or_absent_def nested_or_def member_or_def and_then_def)

lemma package_tool_object:
  assumes "get_tool_files fd = Inr records"
    and "folder_config fd = Some (Inr (JObj kvs))"
    and "object_or_absent kvs ''meta''" and "object_or_absent kvs ''build''"
  shows "package_tool fd =
     Inr (JObj [(''author'', nested_or kvs ''meta'' ''author'' JNull),
                (''name'', member_or kvs ''name'' JNull),
                (''version'', nested_or kvs ''meta'' ''version'' JNull),
                (''license'', member_or kvs ''license'' (JStr ''Unknown'')),
                (''files'', JArr records),
                (''entry'', nested_or kvs ''build'' ''entry'' (JStr ''tool.py'')),
                (''module'', nested_or kvs ''build'' ''module'' (JStr ''Tool''))])"
proof -
  have md: "get_tool_metadata fd = Inr (JObj kvs)"
    using assms(2) by (simp add: get_tool_metadata_def)
  note n = py_get_nested [OF assms(3)] py_get_nested [OF assms(4)]
  show ?thesis
    unfolding package_tool_def md assms(1)
    by (simp del: py_get.simps add: and_then_def [of "Inr x" for x] n)
       (simp add: and_then_def member_or_def)
qed

lemma package_tool_no_config:
  assumes "get_tool_files fd = Inr records" and "folder_config fd = None"
  shows "package_tool fd =
     Inr (JObj [(''author'', JNull), (''name'', JNull), (''version'', JNull),
                (''license'', JStr ''Unknown''), (''files'', JArr records),
                (''entry'', JStr ''tool.py''), (''module'', JStr ''Tool'')])"
  using assms
  by (simp add: package_tool_def get_tool_metadata_def and_then_def)

lemma package_tool_readable:
  assumes "all_readable fd" and "config_shape (folder_config fd)"
  shows "package_tool fd =
        Inr (JObj [(''author'', nested_or (config_members fd) ''meta'' ''author'' JNull),
                   (''name'', member_or (config_members fd) ''name'' JNull),
                   (''version'', nested_or (config_members fd) ''meta'' ''version'' JNull),
                   (''license'', member_or (config_members fd) ''license'' (JStr ''Unknown'')),
                   (''files'', JArr (file_records fd)),
                   (''entry'', nested_or (config_members fd) ''build'' ''entry'' (JStr ''tool.py'')),
                   (''module'', nested_or (config_members fd) ''build'' ''module'' (JStr ''Tool''))])"
proof (cases "folder_config fd")
  case None
  with get_tool_files_readable [OF assms(1)] show ?thesis
    by (simp add: package_tool_no_config config_members_def nested_or_def member_or_def)
next
  case (Some r)
  with assms(2) obtain kvs where r: "r = Inr (JObj kvs)"
    by (cases r; cases "projr r") auto
  with assms(2) Some get_tool_files_readable [OF assms(1)] show ?thesis
    by (simp add: package_tool_object config_members_def)
qed

lemma example_folder_files:
  "file_records example_folder
     = [file_record ''config.json'' example_config_bytes, file_record ''main.py'' [104, 105]]"
  by (simp add: file_records_def example_folder_def)

subsection \<open>Facts about \<^verbatim>\<open>_save_tool_to_cache\<close>\<close>

lemma files_dict_append:
  "files_dict (xs @ ys) d =
     (case files_dict xs d of Inl e \<Rightarrow> Inl e | Inr d' \<Rightarrow> files_dict ys d')"
  by (induction xs arbitrary: d) (auto split: sum.splits)

lemma files_dict_total:
  "(\<forall>g \<in> set fs. \<exists>kb. file_item g = Inr kb) \<Longrightarrow> \<exists>m. files_dict fs d = Inr m"
  by (induction fs arbitrary: d) (auto split: sum.splits)

lemma files_dict_other:
  "files_dict fs d = Inr m \<Longrightarrow> (\<forall>g \<in> set fs. \<forall>b'. file_item g \<noteq> Inr (k, b'))
     \<Longrightarrow> m k = d k"
  by (induction fs arbitrary: d) (auto split: sum.splits)

lemma files_dict_last:
  assumes "files_dict (pre @ f # post) d = Inr m"
    and "file_item f = Inr (k, b)"
    and "\<forall>g \<in> set post. \<forall>b'. file_item g \<noteq> Inr (k, b')"
  shows "m k = Some b"
proof -
  from assms(1) obtain d' where d': "files_dict pre d = Inr d'"
    and rest: "files_dict (f # post) d' = Inr m"
    by (auto simp: files_dict_append split: sum.splits)
  from rest assms(2) have "files_dict post (d'(k \<mapsto> b)) = Inr m"
    by simp
  from files_dict_other [OF this assms(3)] show ?thesis
    by simp
qed

lemma first_item: "file_item (file_entry ''a.py'' ''QQ=='') = Inr (JStr ''a.py'', [65])"
  by code_simp

lemma second_item: "file_item (file_entry ''a.py'' ''Qg=='') = Inr (JStr ''a.py'', [66])"
  by code_simp

lemma file_item_of_file: "file_item (file_record p b) = Inr (JStr p, b)"
  by (simp add: file_item_def file_record_def and_then_def b64decode_def b64encode_ascii
      a2b_roundtrip)

lemma read_tool_files_items:
  "read_tool_files fs = Inr entries \<Longrightarrow>
     map file_item entries =
       map (\<lambda>f. case snd f of Inr bytes \<Rightarrow> Inr (JStr (fst f), bytes) | Inl e \<Rightarrow> Inl e) fs"
proof (induction fs arbitrary: entries)
  case Nil
  then show ?case by simp
next
  case (Cons f fs)
  obtain p r where f: "f = (p, r)"
    by (cases f)
  with Cons show ?case
    by (cases r; cases "read_tool_files fs") (auto simp: file_item_of_file)
qed

subsection \<open>Facts about \<^verbatim>\<open>_get_cached_versions\<close>\<close>

lemma rfind_ext: "rfind CHR ''.'' (seg @ ''.tool'') = Some (length seg)"
  by (simp add: rfind_def)

lemma stem_ext: "seg \<noteq> [] \<Longrightarrow> stem (seg @ ''.tool'') = seg"
  by (simp add: stem_def rfind_ext)

lemma has_tool_ext_append: "has_tool_ext (seg @ ''.tool'')"
proof -
  have "length (seg @ ''.tool'') - 5 = length seg"
    by simp
  then show ?thesis
    unfolding has_tool_ext_def by simp
qed

subsection \<open>Facts about \<^verbatim>\<open>check_reqs_installed\<close>\<close>









lemma load_disk_with:
  "package_load (disk_with fs) ''t.tool'' = Inr \<lparr>metadata = [], files = fs\<rparr>"
  by (simp add: package_load_def disk_with_def)






subsection \<open>Facts about \<^verbatim>\<open>install_tool_reqs\<close>\<close>

lemma install_with_manifest:
  assumes "package_load d tool_path = Inr pkg"
    and "files pkg (JStr ''requirements.txt'') = Some reqs" and "reqs \<noteq> []"
  shows "install_tool_reqs d tool_path cache_dir installer fs =
     (fs(temp_reqs_path cache_dir := None),
      case check_call installer of
        Inl e \<Rightarrow> if e = CalledProcessError then Inr () else Inl e
      | Inr u \<Rightarrow> Inr u)"
  using assms by (simp add: install_tool_reqs_def Let_def)

subsection \<open>Facts about \<^verbatim>\<open>load_tool\<close>\<close>

text \<open>
  The search path after a local load that reaches the inner \<^verbatim>\<open>try\<close>
  (\<open>load_tool_local_sys_path\<close>): the path before the call, without its first entry when
  that entry is the working directory. A load that fails earlier changes nothing
  (\<open>load_tool_local_early\<close>).
\<close>

lemma try_body_sys_path: "sys_path (fst (try_body env ep mn cfg s)) = sys_path s"
  by (simp add: try_body_def Let_def split: json.splits import_run.splits)

lemma try_body_registry_other:
  "mn = JStr name \<Longrightarrow> k \<noteq> name \<Longrightarrow>
     sys_modules (fst (try_body env ep mn cfg s)) k = sys_modules s k"
  by (simp add: try_body_def Let_def split: json.splits import_run.splits)

lemma try_body_registers:
  assumes "\<forall>e. import_run env \<noteq> SpecRaises e"
  shows "sys_modules (fst (try_body env (JStr entry) (JStr name) cfg s)) name
           = Some (Module name (local_tool_path env) entry)"
  using assms by (cases "import_run env") (simp_all add: try_body_def Let_def)

lemma pushed_path:
  "sys_path (push_search_path env s) =
     (if current_path env \<in> set (sys_path s) then local_tool_path env # sys_path s
      else local_tool_path env # current_path env # sys_path s)"
  by (simp add: push_search_path_def Let_def)

lemma pushed_registry: "sys_modules (push_search_path env s) = sys_modules s"
  by (simp add: push_search_path_def Let_def)

lemma load_tool_local_reached:
  assumes "local_tool_exists env" and "local_tool_config env = Inr cfg"
    and "build_member cfg ''entry'' = Inr ep" and "build_member cfg ''module'' = Inr mn"
  shows "load_tool_local env s =
     finally_cleanup env mn (fst (try_body env ep mn cfg (push_search_path env s)))
       (snd (try_body env ep mn cfg (push_search_path env s)))"
  using assms by (simp add: load_tool_local_def split: prod.splits)

lemma cleanup_sys_path:
  assumes "sys_path s = t # first # rest"
  shows "sys_path (fst (finally_cleanup env mn s r))
           = (if current_path env = first then rest else first # rest)"
  using assms by (simp add: finally_cleanup_def Let_def split: json.splits)

lemma cleanup_registry:
  assumes "sys_path s = t # first # rest"
  shows "sys_modules (fst (finally_cleanup env (JStr name) s r)) = (sys_modules s)(name := None)"
  using assms by (simp add: finally_cleanup_def Let_def)

lemma load_tool_local_sys_path:
  assumes "local_tool_exists env" and "local_tool_config env = Inr cfg"
    and "build_member cfg ''entry'' = Inr ep" and "build_member cfg ''module'' = Inr mn"
  shows "sys_path (fst (load_tool_local env s)) =
     (case sys_path s of
        [] \<Rightarrow> []
      | first # rest \<Rightarrow> if first = current_path env then rest else first # rest)"
proof (cases "current_path env \<in> set (sys_path s)")
  case True
  then obtain first rest where p: "sys_path s = first # rest"
    by (cases "sys_path s") auto
  let ?s = "fst (try_body env ep mn cfg (push_search_path env s))"
  have "sys_path ?s = local_tool_path env # first # rest"
    using True p by (simp add: try_body_sys_path pushed_path)
  from cleanup_sys_path [OF this] show ?thesis
    using p by (auto simp: load_tool_local_reached [OF assms])
next
  case False
  let ?s = "fst (try_body env ep mn cfg (push_search_path env s))"
  have "sys_path ?s = local_tool_path env # current_path env # sys_path s"
    using False by (simp add: try_body_sys_path pushed_path)
  from cleanup_sys_path [OF this] show ?thesis
    using False by (auto simp: load_tool_local_reached [OF assms] split: list.splits)
qed

lemma load_tool_local_early:
  assumes "\<not> local_tool_exists env \<or> (\<exists>e. local_tool_config env = Inl e)
     \<or> (\<exists>cfg e. local_tool_config env = Inr cfg
           \<and> (build_member cfg ''entry'' = Inl e \<or> build_member cfg ''module'' = Inl e))"
  shows "fst (load_tool_local env s) = s"
  using assms by (auto simp: load_tool_local_def split: sum.splits)

section \<open>Claims\<close>

text \<open>
  C1. A local load is to leave \<^verbatim>\<open>sys.path\<close> as it was before the call, on every exit
  path and whether or not the working directory was on the path already. The code does
  not: started in \<^verbatim>\<open>/work\<close> with the search path \<^verbatim>\<open>["/work", "/usr/lib/python3"]\<close>,
  a load that returns the class leaves the path \<^verbatim>\<open>["/usr/lib/python3"]\<close>. The working
  directory was not inserted, yet the second \<^verbatim>\<open>pop(0)\<close> of the \<^verbatim>\<open>finally\<close> block
  removes it, because it tests \<^verbatim>\<open>current_path == sys.path[0]\<close> and not whether the
  directory was inserted.
\<close>

theorem load_tool_search_path_not_restored:
  "sys_path started_in_work = [''/work'', ''/usr/lib/python3'']
   \<and> current_path demo_tool = ''/work''
   \<and> snd (load_tool_local demo_tool started_in_work) = Inr (ToolClass ''Tool'', demo_config)
   \<and> sys_path (fst (load_tool_local demo_tool started_in_work)) = [''/usr/lib/python3'']"
  by (simp add: load_tool_local_def demo_tool_def started_in_work_def demo_config_def
      build_member_def and_then_def try_body_def push_search_path_def finally_cleanup_def)

text \<open>
  C2. For every version text \<open>v\<close> of dot-separated non-negative integer components,
  decoding the encoded path segment gives \<open>v\<close> back, and the absent version
  (\<^verbatim>\<open>None\<close>) encodes to the segment \<^verbatim>\<open>latest\<close>.
\<close>

theorem version_roundtrip:
  "(dotted_version v \<longrightarrow> path_to_version (version_to_path (Some v)) = v)
   \<and> version_to_path None = ''latest''"
  using dotted_version_no_dash [of v]
  by (auto simp: version_to_path_def path_to_version_def replace_back)

theorem version_roundtrip_witness:
  "dotted_version ''1.10.0''
   \<and> path_to_version (version_to_path (Some ''1.10.0'')) = ''1.10.0''
   \<and> version_to_path None = ''latest''"
proof -
  have h: "dotted_version ''1.10.0''"
    by (simp add: dotted_version_def is_digit_def)
  with version_roundtrip [of "''1.10.0''"] show ?thesis
    by blast
qed

text \<open>
  C3, as amended. \<^verbatim>\<open>_get_newest_version\<close> returns \<^verbatim>\<open>None\<close> for the empty list. For
  a non-empty list of versions whose dot-separated components are all integer literals
  of \<^verbatim>\<open>int\<close> (decimal digits, at most 4300 of them, where single underscores may
  stand between digits, one sign may lead and white space may surround), it returns an
  element of the list whose list of component values is greatest in the component-wise
  numeric order of Python's lists; on \<^verbatim>\<open>["1.2.0", "1.10.0", "1.9.0"]\<close> that is
  \<^verbatim>\<open>"1.10.0"\<close>. If some component is not such a literal, it raises
  \<^verbatim>\<open>ValueError\<close>. Every run of at most 4300 decimal digits is such a literal, and its
  value is its decimal value.
\<close>

theorem newest_version_spec:
  "get_newest_version [] = Inr None
   \<and> (versions \<noteq> [] \<and> (\<forall>v \<in> set versions. literal_version v) \<longrightarrow>
        (\<exists>v. get_newest_version versions = Inr (Some v) \<and> v \<in> set versions
           \<and> (\<forall>w \<in> set versions. key_le (component_values w) (component_values v))))
   \<and> ((\<exists>v \<in> set versions. \<not> literal_version v) \<longrightarrow>
        get_newest_version versions = Inl ValueError)
   \<and> (digit_run p \<and> length p \<le> int_max_str_digits \<longrightarrow>
        int_literal p \<and> literal_value p = decimal_val p)
   \<and> get_newest_version [''1.2.0'', ''1.10.0'', ''1.9.0''] = Inr (Some ''1.10.0'')"
proof -
  have "get_newest_version [] = Inr None"
    by (simp add: get_newest_version_def)
  moreover have "get_newest_version [''1.2.0'', ''1.10.0'', ''1.9.0''] = Inr (Some ''1.10.0'')"
    by code_simp
  ultimately show ?thesis
    using newest_of_literals [of versions] newest_not_literal [of versions]
      digit_run_literal [of p]
    by blast
qed

text \<open>
  The amended claim at the list of the example, at a list with the component \<^verbatim>\<open>x\<close>,
  and at the digit run \<^verbatim>\<open>10\<close>.
\<close>

theorem newest_version_spec_witness:
  "[''1.2.0'', ''1.10.0'', ''1.9.0''] \<noteq> []
   \<and> list_all literal_version [''1.2.0'', ''1.10.0'', ''1.9.0'']
   \<and> (\<exists>v. get_newest_version [''1.2.0'', ''1.10.0'', ''1.9.0''] = Inr (Some v)
         \<and> v \<in> set [''1.2.0'', ''1.10.0'', ''1.9.0'']
         \<and> list_all (\<lambda>w. key_le (component_values w) (component_values v))
              [''1.2.0'', ''1.10.0'', ''1.9.0''])
   \<and> list_ex (\<lambda>v. \<not> literal_version v) [''1.2.0'', ''1.x'']
   \<and> get_newest_version [''1.2.0'', ''1.x''] = Inl ValueError
   \<and> digit_run ''10'' \<and> length ''10'' \<le> int_max_str_digits
   \<and> int_literal ''10'' \<and> literal_value ''10'' = decimal_val ''10''"
proof -
  have a: "list_all literal_version [''1.2.0'', ''1.10.0'', ''1.9.0'']"
    by code_simp
  have b: "list_ex (\<lambda>v. \<not> literal_version v) [''1.2.0'', ''1.x'']"
    by code_simp
  have e: "digit_run ''10''" "length ''10'' \<le> int_max_str_digits"
    by (simp_all add: digit_run_def is_digit_def int_max_str_digits_def)
  from a newest_version_spec [of "[''1.2.0'', ''1.10.0'', ''1.9.0'']"]
  have c: "\<exists>v. get_newest_version [''1.2.0'', ''1.10.0'', ''1.9.0''] = Inr (Some v)
         \<and> v \<in> set [''1.2.0'', ''1.10.0'', ''1.9.0'']
         \<and> list_all (\<lambda>w. key_le (component_values w) (component_values v))
              [''1.2.0'', ''1.10.0'', ''1.9.0'']"
    unfolding list_all_iff by blast
  from b newest_version_spec [of "[''1.2.0'', ''1.x'']"]
  have d: "get_newest_version [''1.2.0'', ''1.x''] = Inl ValueError"
    unfolding list_ex_iff by blast
  from e newest_version_spec [of _ "''10''"]
  have f: "int_literal ''10'' \<and> literal_value ''10'' = decimal_val ''10''"
    by blast
  from a b c d e f show ?thesis
    by simp
qed



text \<open>
  C3 as first stated has an error for every component that is not numeric and a result
  for all numeric components. The component \<^verbatim>\<open>1_0\<close> is not a run of digits, yet
  \<^verbatim>\<open>int\<close> reads it as 10 and the call returns it as the newest of \<^verbatim>\<open>1_0\<close> and
  \<^verbatim>\<open>9\<close>; and the run of 4301 digits \<^verbatim>\<open>1\<close> is numeric, yet \<^verbatim>\<open>int\<close> rejects it and
  the call raises \<^verbatim>\<open>ValueError\<close>.
\<close>

theorem newest_version_counterexample:
  "\<not> digit_run ''1_0''
   \<and> get_newest_version [''1_0'', ''9''] = Inr (Some ''1_0'')
   \<and> digit_run (replicate 4301 CHR ''1'')
   \<and> get_newest_version [replicate 4301 CHR ''1''] = Inl ValueError"
proof -
  have "\<not> digit_run ''1_0''"
    by (simp add: digit_run_def is_digit_def)
  moreover have "get_newest_version [''1_0'', ''9''] = Inr (Some ''1_0'')"
    by code_simp
  ultimately show ?thesis
    using ones_digit_run ones_rejected by (intro conjI)
qed





text \<open>
  C5. For every byte sequence \<open>b\<close>, the content that \<^verbatim>\<open>_get_tool_files\<close> writes for
  a file holding \<open>b\<close> (the Base64 text of \<open>b\<close>) is decoded by
  \<^verbatim>\<open>_save_tool_to_cache\<close> (\<^verbatim>\<open>base64.b64decode\<close> of the content field) to exactly
  \<open>b\<close>; so the record that \<^verbatim>\<open>_get_tool_files\<close> builds for a file gives, as an item of
  the comprehension in \<^verbatim>\<open>_save_tool_to_cache\<close>, the path and the bytes of the file,
  and so do all the records of a folder that \<^verbatim>\<open>_get_tool_files\<close> returns.
\<close>

theorem content_roundtrip:
  "b64decode (b64encode b) = Inr b
   \<and> file_item (file_record p b) = Inr (JStr p, b)
   \<and> (get_tool_files fd = Inr entries \<longrightarrow>
        map file_item entries =
          map (\<lambda>f. case snd f of Inr bytes \<Rightarrow> Inr (JStr (fst f), bytes) | Inl e \<Rightarrow> Inl e)
            (folder_files fd))"
  using read_tool_files_items [of "folder_files fd" entries]
  by (simp add: b64decode_def b64encode_ascii a2b_roundtrip file_item_of_file
      get_tool_files_def)

text \<open>The records of the folder with \<^verbatim>\<open>config.json\<close> and \<^verbatim>\<open>main.py\<close>.\<close>

theorem content_roundtrip_witness:
  "get_tool_files example_folder
     = Inr [file_record ''config.json'' example_config_bytes, file_record ''main.py'' [104, 105]]
   \<and> map file_item
         [file_record ''config.json'' example_config_bytes, file_record ''main.py'' [104, 105]]
       = [Inr (JStr ''config.json'', example_config_bytes), Inr (JStr ''main.py'', [104, 105])]"
proof -
  have r: "all_readable example_folder"
    by (simp add: all_readable_def example_folder_def)
  have g: "get_tool_files example_folder
     = Inr [file_record ''config.json'' example_config_bytes, file_record ''main.py'' [104, 105]]"
    using get_tool_files_readable [OF r] by (simp add: example_folder_files)
  from g content_roundtrip [where fd = example_folder and entries =
      "[file_record ''config.json'' example_config_bytes, file_record ''main.py'' [104, 105]]"]
  have "map file_item
         [file_record ''config.json'' example_config_bytes, file_record ''main.py'' [104, 105]]
       = [Inr (JStr ''config.json'', example_config_bytes), Inr (JStr ''main.py'', [104, 105])]"
    by (simp add: example_folder_def)
  with g show ?thesis
    by simp
qed

text \<open>
  C6. \<^verbatim>\<open>_get_cached_versions\<close> returns the empty list when the tool's cache
  subdirectory does not exist. When it exists, the result holds exactly the decoded
  stems of the entries that are files and whose names match \<^verbatim>\<open>*.tool\<close>, one for each
  such entry; for an entry named \<open>seg\<close> followed by \<^verbatim>\<open>.tool\<close>, with \<open>seg\<close> not empty,
  the stem is \<open>seg\<close>. A directory with the entries \<^verbatim>\<open>1-0-0.tool\<close> and
  \<^verbatim>\<open>2-1-0.tool\<close> gives the set of \<^verbatim>\<open>1.0.0\<close> and \<^verbatim>\<open>2.1.0\<close>.
\<close>

theorem cached_versions_spec:
  "get_cached_versions Missing = []
   \<and> (v \<in> set (get_cached_versions (Directory entries)) \<longleftrightarrow>
        (\<exists>n. (n, True) \<in> set entries \<and> has_tool_ext n \<and> v = path_to_version (stem n)))
   \<and> length (get_cached_versions (Directory entries))
        = length (filter (\<lambda>e. has_tool_ext (fst e) \<and> snd e) entries)
   \<and> (seg \<noteq> [] \<longrightarrow> has_tool_ext (seg @ ''.tool'') \<and> stem (seg @ ''.tool'') = seg)
   \<and> set (get_cached_versions (Directory [(''1-0-0.tool'', True), (''2-1-0.tool'', True)]))
        = {''1.0.0'', ''2.1.0''}"
proof (intro conjI impI)
  show "get_cached_versions Missing = []"
    by (simp add: get_cached_versions_def)
next
  show "v \<in> set (get_cached_versions (Directory entries)) \<longleftrightarrow>
        (\<exists>n. (n, True) \<in> set entries \<and> has_tool_ext n \<and> v = path_to_version (stem n))"
  proof -
    have "set (get_cached_versions (Directory entries))
        = (\<lambda>e. path_to_version (stem (fst e))) ` {e \<in> set entries. has_tool_ext (fst e) \<and> snd e}"
      by (simp add: get_cached_versions_def)
    also have "{e \<in> set entries. has_tool_ext (fst e) \<and> snd e}
        = (\<lambda>n. (n, True)) ` {n. (n, True) \<in> set entries \<and> has_tool_ext n}"
      by (auto simp: image_iff)
    finally show ?thesis
      by (auto simp: image_iff)
  qed
next
  show "length (get_cached_versions (Directory entries))
        = length (filter (\<lambda>e. has_tool_ext (fst e) \<and> snd e) entries)"
    by (simp add: get_cached_versions_def)
next
  assume "seg \<noteq> []"
  then show "has_tool_ext (seg @ ''.tool'')" "stem (seg @ ''.tool'') = seg"
    by (simp_all add: has_tool_ext_append stem_ext)
next
  have "stem ''1-0-0.tool'' = ''1-0-0''" "stem ''2-1-0.tool'' = ''2-1-0''"
    using stem_ext [of "''1-0-0''"] stem_ext [of "''2-1-0''"] by simp_all
  then show "set (get_cached_versions (Directory [(''1-0-0.tool'', True), (''2-1-0.tool'', True)]))
        = {''1.0.0'', ''2.1.0''}"
    by (simp add: get_cached_versions_def has_tool_ext_def path_to_version_def replace_char_def)
qed

text \<open>The stem of the cache entry \<^verbatim>\<open>1-0-0.tool\<close>.\<close>

theorem cached_versions_spec_witness:
  "''1-0-0'' \<noteq> [] \<and> has_tool_ext (''1-0-0'' @ ''.tool'') \<and> stem (''1-0-0'' @ ''.tool'') = ''1-0-0''
   \<and> get_cached_versions Missing = []"
  using cached_versions_spec [of "''1.0.0''" "[]" "''1-0-0''"] by simp

text \<open>
  C7, as amended. For every folder whose files can all be read and whose
  \<^verbatim>\<open>config.json\<close> is absent or holds an object whose members \<^verbatim>\<open>meta\<close> and
  \<^verbatim>\<open>build\<close>, when present, are objects, \<^verbatim>\<open>package_tool\<close> returns a payload with
  the fields author, name, version, license, files, entry and module: author and version
  are the members of the nested \<^verbatim>\<open>meta\<close> object, entry and module those of the nested
  \<^verbatim>\<open>build\<close> object, with the defaults \<^verbatim>\<open>tool.py\<close>, \<^verbatim>\<open>Tool\<close> and \<^verbatim>\<open>Unknown\<close>
  (for the license) when the keys are absent. When the folder has no \<^verbatim>\<open>config.json\<close>,
  the metadata read gives the empty mapping and no error.
\<close>

theorem package_tool_payload:
  "(all_readable fd \<and> config_shape (folder_config fd) \<longrightarrow>
      package_tool fd =
        Inr (JObj [(''author'', nested_or (config_members fd) ''meta'' ''author'' JNull),
                   (''name'', member_or (config_members fd) ''name'' JNull),
                   (''version'', nested_or (config_members fd) ''meta'' ''version'' JNull),
                   (''license'', member_or (config_members fd) ''license'' (JStr ''Unknown'')),
                   (''files'', JArr (file_records fd)),
                   (''entry'', nested_or (config_members fd) ''build'' ''entry'' (JStr ''tool.py'')),
                   (''module'', nested_or (config_members fd) ''build'' ''module'' (JStr ''Tool''))]))
   \<and> (folder_config fd = None \<longrightarrow> get_tool_metadata fd = Inr (JObj []))"
  using package_tool_readable [of fd]
  by (simp add: get_tool_metadata_def)

text \<open>
  The amended claim at the folder with \<^verbatim>\<open>config.json\<close> and \<^verbatim>\<open>main.py\<close>, and at
  the folder that holds nothing.
\<close>

theorem package_tool_payload_witness:
  "all_readable example_folder \<and> config_shape (folder_config example_folder)
   \<and> package_tool example_folder =
       Inr (JObj [(''author'', JStr ''alice''), (''name'', JStr ''demo''),
                  (''version'', JStr ''1.0.0''), (''license'', JStr ''Unknown''),
                  (''files'', JArr [file_record ''config.json'' example_config_bytes,
                                    file_record ''main.py'' [104, 105]]),
                  (''entry'', JStr ''main.py''), (''module'', JStr ''Tool'')])
   \<and> folder_config empty_folder = None
   \<and> get_tool_metadata empty_folder = Inr (JObj [])"
proof -
  have r: "all_readable example_folder"
    by (simp add: all_readable_def example_folder_def)
  have s: "config_shape (folder_config example_folder)"
    by (simp add: example_folder_def object_or_absent_def)
  have m: "config_members example_folder =
       [(''name'', JStr ''demo''),
         (''meta'', JObj [(''author'', JStr ''alice''), (''version'', JStr ''1.0.0'')]),
         (''build'', JObj [(''entry'', JStr ''main.py'')])]"
    by (simp add: example_folder_def config_members_def)
  from r s package_tool_payload [of example_folder]
  have "package_tool example_folder =
       Inr (JObj [(''author'', JStr ''alice''), (''name'', JStr ''demo''),
                  (''version'', JStr ''1.0.0''), (''license'', JStr ''Unknown''),
                  (''files'', JArr [file_record ''config.json'' example_config_bytes,
                                    file_record ''main.py'' [104, 105]]),
                  (''entry'', JStr ''main.py''), (''module'', JStr ''Tool'')])"
    by (simp add: example_folder_files m nested_or_def member_or_def)
  moreover have e: "folder_config empty_folder = None"
    by (simp add: empty_folder_def)
  moreover from e package_tool_payload [of empty_folder]
  have "get_tool_metadata empty_folder = Inr (JObj [])"
    by simp
  ultimately show ?thesis
    using r s by simp
qed

text \<open>
  C7 as first stated speaks of every folder. In the folder whose \<^verbatim>\<open>config.json\<close> is
  \<^verbatim>\<open>{"meta": "x"}\<close> every file can be read, yet
  \<^verbatim>\<open>metadata.get("meta", {}).get("author")\<close> raises \<^verbatim>\<open>AttributeError\<close> on the text
  \<^verbatim>\<open>x\<close> and no payload is returned.
\<close>

theorem package_tool_counterexample:
  "all_readable text_meta_folder \<and> package_tool text_meta_folder = Inl AttributeError"
proof -
  have r: "all_readable text_meta_folder"
    by (simp add: all_readable_def text_meta_folder_def)
  from get_tool_files_readable [OF r] have "package_tool text_meta_folder = Inl AttributeError"
    by (simp add: package_tool_def get_tool_metadata_def text_meta_folder_def and_then_def)
  with r show ?thesis
    by simp
qed

text \<open>
  C8. For a package with a manifest that is not empty, \<^verbatim>\<open>install_tool_reqs\<close> returns
  normally when the installer process exits with a status other than zero; and whatever
  the installer does (exit with status zero, exit with another status, or fail to
  start), the scratch file \<^verbatim>\<open>temp_requirements.txt\<close> that the call wrote is gone when
  the call ends, and every other file is as before.
\<close>

theorem install_failure_not_fatal:
  assumes "package_load d tool_path = Inr pkg"
    and "files pkg (JStr ''requirements.txt'') = Some reqs" and "reqs \<noteq> []"
  shows "snd (install_tool_reqs d tool_path cache_dir ExitNonZero fs) = Inr ()
    \<and> (\<forall>installer.
          fst (install_tool_reqs d tool_path cache_dir installer fs) (temp_reqs_path cache_dir)
            = None
          \<and> (\<forall>p. p \<noteq> temp_reqs_path cache_dir \<longrightarrow>
                fst (install_tool_reqs d tool_path cache_dir installer fs) p = fs p))"
  by (simp add: install_with_manifest [OF assms] check_call_def)

text \<open>The same at the package that requires \<^verbatim>\<open>Flask==1.0\<close>, for three outcomes of the installer.\<close>

theorem install_failure_not_fatal_witness:
  "package_load (disk_with [JStr ''requirements.txt'' \<mapsto> flask_manifest]) ''t.tool''
       = Inr \<lparr>metadata = [], files = [JStr ''requirements.txt'' \<mapsto> flask_manifest]\<rparr>
   \<and> flask_manifest \<noteq> []
   \<and> snd (install_tool_reqs (disk_with [JStr ''requirements.txt'' \<mapsto> flask_manifest])
            ''t.tool'' ''cache'' ExitNonZero Map.empty) = Inr ()
   \<and> fst (install_tool_reqs (disk_with [JStr ''requirements.txt'' \<mapsto> flask_manifest])
            ''t.tool'' ''cache'' ExitNonZero Map.empty) (temp_reqs_path ''cache'') = None
   \<and> fst (install_tool_reqs (disk_with [JStr ''requirements.txt'' \<mapsto> flask_manifest])
            ''t.tool'' ''cache'' ExitZero Map.empty) (temp_reqs_path ''cache'') = None
   \<and> fst (install_tool_reqs (disk_with [JStr ''requirements.txt'' \<mapsto> flask_manifest])
            ''t.tool'' ''cache'' (InstallerRaises OSError) Map.empty) (temp_reqs_path ''cache'')
        = None
   \<and> ''cache/1-0-0.tool'' \<noteq> temp_reqs_path ''cache''
   \<and> fst (install_tool_reqs (disk_with [JStr ''requirements.txt'' \<mapsto> flask_manifest])
            ''t.tool'' ''cache'' ExitNonZero [''cache/1-0-0.tool'' \<mapsto> [1]]) ''cache/1-0-0.tool''
        = Some [1]"
proof -
  let ?fs = "[JStr ''requirements.txt'' \<mapsto> flask_manifest]"
  have l: "package_load (disk_with ?fs) ''t.tool'' = Inr \<lparr>metadata = [], files = ?fs\<rparr>"
    by (rule load_disk_with)
  have f: "files \<lparr>metadata = [], files = ?fs\<rparr> (JStr ''requirements.txt'') = Some flask_manifest"
    by simp
  have ne: "flask_manifest \<noteq> []"
    by (simp add: flask_manifest_def)
  have p: "''cache/1-0-0.tool'' \<noteq> temp_reqs_path ''cache''"
    by (simp add: temp_reqs_path_def)
  from install_failure_not_fatal [OF l f ne, of "''cache''" "[''cache/1-0-0.tool'' \<mapsto> [1]]"] p
  have "fst (install_tool_reqs (disk_with ?fs) ''t.tool'' ''cache'' ExitNonZero
              [''cache/1-0-0.tool'' \<mapsto> [1]]) ''cache/1-0-0.tool'' = Some [1]"
    by simp
  with install_failure_not_fatal [OF l f ne, of "''cache''" Map.empty] l ne p
  show ?thesis
    by blast
qed

text \<open>
  C9. If the registry \<^verbatim>\<open>sys.modules\<close> has an entry under the configured module name
  before a local load that reaches the inner \<^verbatim>\<open>try\<close>, that entry is not restored:
  after the call the registry has no entry under the name, every other entry is as
  before, and whenever the module object is created, the body has put the new module
  under the name, over the old entry.
\<close>

theorem registry_entry_not_restored:
  assumes "local_tool_exists env" and "local_tool_config env = Inr cfg"
    and "build_member cfg ''entry'' = Inr ep"
    and "build_member cfg ''module'' = Inr (JStr name)"
    and "sys_modules s name = Some old"
  shows "sys_modules (fst (load_tool_local env s)) name = None
    \<and> sys_modules (fst (load_tool_local env s)) name \<noteq> sys_modules s name
    \<and> (\<forall>k. k \<noteq> name \<longrightarrow> sys_modules (fst (load_tool_local env s)) k = sys_modules s k)
    \<and> (\<forall>entry. ep = JStr entry \<and> (\<forall>e. import_run env \<noteq> SpecRaises e) \<longrightarrow>
          sys_modules (fst (try_body env ep (JStr name) cfg (push_search_path env s))) name
            = Some (Module name (local_tool_path env) entry))"
proof -
  let ?s = "fst (try_body env ep (JStr name) cfg (push_search_path env s))"
  let ?r = "snd (try_body env ep (JStr name) cfg (push_search_path env s))"
  have run: "load_tool_local env s = finally_cleanup env (JStr name) ?s ?r"
    by (rule load_tool_local_reached [OF assms(1-4)])
  obtain t first rest where p: "sys_path ?s = t # first # rest"
    by (cases "current_path env \<in> set (sys_path s)"; cases "sys_path s")
       (auto simp: try_body_sys_path pushed_path)
  have reg: "sys_modules (fst (load_tool_local env s)) = (sys_modules ?s)(name := None)"
    unfolding run by (rule cleanup_registry [OF p])
  have other: "sys_modules ?s k = sys_modules s k" if "k \<noteq> name" for k
    using that by (simp add: try_body_registry_other pushed_registry)
  show ?thesis
    using reg other assms(5) try_body_registers by simp
qed

text \<open>The same at the tool \<^verbatim>\<open>demo\<close>, with a module \<^verbatim>\<open>Tool\<close> registered before the call.\<close>

theorem registry_entry_not_restored_witness:
  "local_tool_exists demo_tool \<and> local_tool_config demo_tool = Inr demo_config
   \<and> build_member demo_config ''entry'' = Inr (JStr ''tool.py'')
   \<and> build_member demo_config ''module'' = Inr (JStr ''Tool'')
   \<and> sys_modules started_in_work ''Tool'' = Some (Module ''Tool'' ''/other'' ''tool.py'')
   \<and> sys_modules (fst (load_tool_local demo_tool started_in_work)) ''Tool'' = None
   \<and> ''os'' \<noteq> ''Tool''
   \<and> sys_modules (fst (load_tool_local demo_tool started_in_work)) ''os''
        = sys_modules started_in_work ''os''
   \<and> sys_modules (fst (try_body demo_tool (JStr ''tool.py'') (JStr ''Tool'') demo_config
                          (push_search_path demo_tool started_in_work))) ''Tool''
        = Some (Module ''Tool'' ''/tools/demo'' ''tool.py'')"
proof -
  have a: "local_tool_exists demo_tool" "local_tool_config demo_tool = Inr demo_config"
    by (simp_all add: demo_tool_def)
  have b: "build_member demo_config ''entry'' = Inr (JStr ''tool.py'')"
    "build_member demo_config ''module'' = Inr (JStr ''Tool'')"
    by (simp_all add: demo_config_def build_member_def and_then_def)
  have c: "sys_modules started_in_work ''Tool'' = Some (Module ''Tool'' ''/other'' ''tool.py'')"
    by (simp add: started_in_work_def)
  have d: "\<forall>e. import_run demo_tool \<noteq> SpecRaises e" "local_tool_path demo_tool = ''/tools/demo''"
    by (simp_all add: demo_tool_def)
  from registry_entry_not_restored [OF a b c] d a b c
  show ?thesis
    by simp
qed

text \<open>
  C10. When the payload given to \<^verbatim>\<open>_save_tool_to_cache\<close> holds several file entries
  with the same path, no error is raised for that: if the metadata fields are present
  and every entry of the list is acceptable on its own (its path and content are
  there, the content decodes, the path is hashable), the call succeeds whatever entries
  come before. The saved package maps the path to the decoded content of the last entry
  with that path.
\<close>

theorem duplicate_paths_keep_last:
  assumes md: "payload_metadata tool_data = Inr md"
    and fs: "payload_files tool_data = Inr (pre @ f # post)"
    and ok: "\<forall>g \<in> set (pre @ f # post). \<exists>kb. file_item g = Inr kb"
    and f: "file_item f = Inr (k, b)"
    and last: "\<forall>g \<in> set post. \<forall>b'. file_item g \<noteq> Inr (k, b')"
  shows "\<exists>m. save_tool_to_cache tool_data cache_path d
               = Inr (d(cache_path \<mapsto> Stored \<lparr>metadata = md, files = m\<rparr>))
             \<and> m k = Some b"
proof -
  from files_dict_total [OF ok] obtain m where m: "files_dict (pre @ f # post) Map.empty = Inr m"
    by blast
  from files_dict_last [OF m f last] have "m k = Some b" .
  moreover have "save_tool_to_cache tool_data cache_path d
               = Inr (d(cache_path \<mapsto> Stored \<lparr>metadata = md, files = m\<rparr>))"
    by (simp add: save_tool_to_cache_def md fs m and_then_def package_save_def)
  ultimately show ?thesis
    by blast
qed

text \<open>The same at the payload with two entries for \<^verbatim>\<open>a.py\<close>: the content \<^verbatim>\<open>B\<close> is kept.\<close>

theorem duplicate_paths_keep_last_witness:
  "payload_metadata duplicate_payload = Inr payload_fields
   \<and> payload_files duplicate_payload
       = Inr ([file_entry ''a.py'' ''QQ==''] @ file_entry ''a.py'' ''Qg=='' # [])
   \<and> file_item (file_entry ''a.py'' ''QQ=='') = Inr (JStr ''a.py'', [65])
   \<and> file_item (file_entry ''a.py'' ''Qg=='') = Inr (JStr ''a.py'', [66])
   \<and> (\<exists>m. save_tool_to_cache duplicate_payload ''c/alice/demo/1-0-0.tool'' Map.empty
               = Inr (Map.empty(''c/alice/demo/1-0-0.tool'' \<mapsto>
                        Stored \<lparr>metadata = payload_fields, files = m\<rparr>))
             \<and> m (JStr ''a.py'') = Some [66])"
proof -
  have md: "payload_metadata duplicate_payload = Inr payload_fields"
    by (simp add: payload_metadata_def duplicate_payload_def payload_fields_def and_then_def)
  have fs: "payload_files duplicate_payload
       = Inr ([file_entry ''a.py'' ''QQ==''] @ file_entry ''a.py'' ''Qg=='' # [])"
    by (simp add: payload_files_def duplicate_payload_def payload_fields_def and_then_def)
  have ok: "\<forall>g \<in> set ([file_entry ''a.py'' ''QQ==''] @ file_entry ''a.py'' ''Qg=='' # []).
              \<exists>kb. file_item g = Inr kb"
    using first_item second_item by simp
  have last: "\<forall>g \<in> set []. \<forall>b'. file_item g \<noteq> Inr (JStr ''a.py'', b')"
    by simp
  from duplicate_paths_keep_last [OF md fs ok second_item last, of "''c/alice/demo/1-0-0.tool''" Map.empty]
  show ?thesis
    using md fs first_item second_item by blast
qed

end
